theory Spec2Isabelle
  imports Main
begin

section \<open>JSON documents\<close>

text \<open>
  The repository holds two files: \<^verbatim>\<open>README.md\<close>, a text, and
  \<^verbatim>\<open>bodo_getting_started.ipynb\<close>, a Jupyter notebook, which on disk is one JSON
  document. The notebook is embedded as the JSON value its text denotes: objects keep
  their members in the order of the file, all numbers of the file are integers, and a
  string is the list of the bytes of its UTF-8 encoding.
\<close>

datatype json =
    JNull
  | JBool bool
  | JNum int
  | JStr string
  | JArr "json list"
  | JObj "(string \<times> json) list"

text \<open>Member access, as \<^verbatim>\<open>d.get(k)\<close> reads a member of a Python dict.\<close>

fun field :: "string \<Rightarrow> json \<Rightarrow> json option" where
  "field k (JObj kvs) = map_of kvs k"
| "field k _ = None"

fun keys :: "json \<Rightarrow> string list" where
  "keys (JObj kvs) = map fst kvs"
| "keys _ = []"

fun members :: "json option \<Rightarrow> (string \<times> json) list" where
  "members (Some (JObj kvs)) = kvs"
| "members _ = []"

fun elements :: "json option \<Rightarrow> json list" where
  "elements (Some (JArr xs)) = xs"
| "elements _ = []"

fun str_of :: "json option \<Rightarrow> string" where
  "str_of (Some (JStr s)) = s"
| "str_of _ = []"

fun int_of :: "json option \<Rightarrow> int option" where
  "int_of (Some (JNum n)) = Some n"
| "int_of _ = None"

text \<open>
  The notebook format stores a text (the source of a cell, the text of a stream) either as
  one string or as the list of its lines, each line with its newline. \<open>text_lines\<close>
  gives the lines either way, as \<^verbatim>\<open>str.splitlines(keepends=True)\<close> does for a
  string, and \<open>multiline\<close> the whole text.
\<close>

fun splitlines :: "string \<Rightarrow> string \<Rightarrow> string list" where
  "splitlines cur [] = (if cur = [] then [] else [cur])"
| "splitlines cur (c # cs) =
    (if c = CHR 0x0A then (cur @ [c]) # splitlines [] cs else splitlines (cur @ [c]) cs)"

fun text_lines :: "json option \<Rightarrow> string list" where
  "text_lines (Some (JStr s)) = splitlines [] s"
| "text_lines (Some (JArr xs)) = map (\<lambda>x. str_of (Some x)) xs"
| "text_lines _ = []"

fun multiline :: "json option \<Rightarrow> string" where
  "multiline (Some (JStr s)) = s"
| "multiline (Some (JArr xs)) = concat (map (\<lambda>x. str_of (Some x)) xs)"
| "multiline _ = []"

section \<open>The notebook \<^verbatim>\<open>bodo_getting_started.ipynb\<close>\<close>

text \<open>
  The cells of the notebook, in the order of the file; \<open>cell_0\<close> is the first cell.
\<close>

definition cell_0 :: json where \<open>cell_0 =
  JObj [
    (''cell_type'', JStr ''markdown''),
    (''metadata'', JObj []),
    (''source'', JArr [
      JStr ''# Bodo Getting Started Tutorial\<newline>'',
      JStr ''\<newline>'',
      JStr ''Bodo is the simplest and most efficient analytics engine. It accelerates and scales data science programs\<newline>'',
      JStr ''automatically and enables instant deployment, eliminating the need to rewrite Python analytics code to Spark/Scala, SQL or MPI/C++.\<newline>'',
      JStr ''In this tutorial, we will cover the basics of using Bodo and explain its important concepts.\<newline>'',
      JStr ''\<newline>'',
      JStr ''In a nutshell, Bodo provides a just-in-time (JIT) compilation workflow using the `@bodo.jit` decorator. It replaces decorated Python functions with an optimized and parallelized binary version using advanced compilation methods.\<newline>'',
      JStr ''\<newline>'',
      JStr ''Let\'s get started!''])]\<close>

definition cell_1 :: json where \<open>cell_1 =
  JObj [
    (''cell_type'', JStr ''markdown''),
    (''metadata'', JObj []),
    (''source'', JArr [
      JStr ''## Environment Setup\<newline>'',
      JStr ''Please follow the [Bodo installation](http://docs.bodo.ai/latest/source/install.html) and [Jupyter Notebook Setup](http://docs.bodo.ai/latest/source/jupyter.html) pages to setup the environment. Also, make sure MPI engines are started in the `IPython Clusters` tab (or using `ipcluster start -n 4 --profile=mpi` in command line), then initialize the `ipyparallel` environment:''])]\<close>

definition cell_2 :: json where \<open>cell_2 =
  JObj [
    (''cell_type'', JStr ''code''),
    (''execution_count'', JNum 1),
    (''metadata'', JObj []),
    (''outputs'', JArr []),
    (''source'', JArr [
      JStr ''import ipyparallel as ipp\<newline>'',
      JStr ''c = ipp.Client(profile=\'mpi\')\<newline>'',
      JStr ''view = c[:]\<newline>'',
      JStr ''view.activate()''])]\<close>

definition cell_3 :: json where \<open>cell_3 =
  JObj [
    (''cell_type'', JStr ''markdown''),
    (''metadata'', JObj []),
    (''source'', JArr [
      JStr ''## Parallel Pandas with Bodo\<newline>'',
      JStr ''First, we demonstrate how Bodo automatically parallelizes and optimizes standard Python programs that make use of pandas and NumPy, without the need to rewrite your code. Bodo can scale your analytics code to thousands of cores, providing orders of magnitude speed up depending on program characteristics.''])]\<close>

definition cell_4 :: json where \<open>cell_4 =
  JObj [
    (''cell_type'', JStr ''markdown''),
    (''metadata'', JObj []),
    (''source'', JArr [
      JStr ''### Generate data\<newline>'',
      JStr ''To begin, let\'s generate a simple dataset (the size of this dataframe in memory is approximately 305 MB, and the size of the written Parquet file is 77 MB):''])]\<close>

definition cell_5 :: json where \<open>cell_5 =
  JObj [
    (''cell_type'', JStr ''code''),
    (''execution_count'', JNum 2),
    (''metadata'', JObj []),
    (''outputs'', JArr [
      JObj [
        (''name'', JStr ''stdout''),
        (''output_type'', JStr ''stream''),
        (''text'', JArr [
          JStr ''           A         B\<newline>'',
          JStr ''0          0         0\<newline>'',
          JStr ''1          1         1\<newline>'',
          JStr ''2          2         2\<newline>'',
          JStr ''3          3         3\<newline>'',
          JStr ''4          4         4\<newline>'',
          JStr ''...       ..       ...\<newline>'',
          JStr ''19999995  15  19999995\<newline>'',
          JStr ''19999996  16  19999996\<newline>'',
          JStr ''19999997  17  19999997\<newline>'',
          JStr ''19999998  18  19999998\<newline>'',
          JStr ''19999999  19  19999999\<newline>'',
          JStr ''\<newline>'',
          JStr ''[20000000 rows x 2 columns]\<newline>''])]]),
    (''source'', JArr [
      JStr ''import pandas as pd\<newline>'',
      JStr ''import numpy as np\<newline>'',
      JStr ''\<newline>'',
      JStr ''NUM_GROUPS = 30\<newline>'',
      JStr ''NUM_ROWS = 20_000_000\<newline>'',
      JStr ''df = pd.DataFrame({\<newline>'',
      JStr ''    "A": np.arange(NUM_ROWS) % NUM_GROUPS,\<newline>'',
      JStr ''    "B": np.arange(NUM_ROWS)\<newline>'',
      JStr ''})\<newline>'',
      JStr ''df.to_parquet("example1.pq")\<newline>'',
      JStr ''print(df)''])]\<close>

definition cell_6 :: json where \<open>cell_6 =
  JObj [
    (''cell_type'', JStr ''markdown''),
    (''metadata'', JObj []),
    (''source'', JArr [
      JStr ''### Data Analysis\<newline>'',
      JStr ''Now let\'s read and process this dataframe. First using Python and pandas:''])]\<close>

definition cell_7 :: json where \<open>cell_7 =
  JObj [
    (''cell_type'', JStr ''code''),
    (''execution_count'', JNum 3),
    (''metadata'', JObj []),
    (''outputs'', JArr [
      JObj [
        (''name'', JStr ''stdout''),
        (''output_type'', JStr ''stream''),
        (''text'', JArr [
          JStr ''6666676000003\<newline>''])]]),
    (''source'', JArr [
      JStr ''def test():\<newline>'',
      JStr ''    df = pd.read_parquet("example1.pq")\<newline>'',
      JStr ''    df2 = df.groupby("A").sum()\<newline>'',
      JStr ''    m = df2.B.max()\<newline>'',
      JStr ''    print(m)\<newline>'',
      JStr ''\<newline>'',
      JStr ''test()''])]\<close>

definition cell_8 :: json where \<open>cell_8 =
  JObj [
    (''cell_type'', JStr ''markdown''),
    (''metadata'', JObj []),
    (''source'', JArr [
      JStr ''Now let\'s run it with Bodo in parallel. To do this, all that we have to do is add the `bodo.jit` decorator to the function, and run the program with MPI (on Jupyter Notebook, use the `%%px --block` [*magic*](https://ipyparallel.readthedocs.io/en/latest/magics.html) to run on MPI engines):''])]\<close>

definition cell_9 :: json where \<open>cell_9 =
  JObj [
    (''cell_type'', JStr ''code''),
    (''execution_count'', JNum 4),
    (''metadata'', JObj []),
    (''outputs'', JArr [
      JObj [
        (''name'', JStr ''stdout''),
        (''output_type'', JStr ''stream''),
        (''text'', JArr [
          JStr ''[stdout:0] 6666676000003\<newline>''])]]),
    (''source'', JArr [
      JStr ''%%px --block\<newline>'',
      JStr ''import pandas as pd\<newline>'',
      JStr ''import bodo\<newline>'',
      JStr ''\<newline>'',
      JStr ''@bodo.jit\<newline>'',
      JStr ''def test():\<newline>'',
      JStr ''    df = pd.read_parquet("example1.pq")\<newline>'',
      JStr ''    df2 = df.groupby("A").sum()\<newline>'',
      JStr ''    m = df2.B.max()\<newline>'',
      JStr ''    print(m)\<newline>'',
      JStr ''\<newline>'',
      JStr ''test()''])]\<close>

definition cell_10 :: json where \<open>cell_10 =
  JObj [
    (''cell_type'', JStr ''markdown''),
    (''metadata'', JObj []),
    (''source'', JArr [
      JStr ''Although the program appears to be a regular sequential Python program, Bodo compiles and *transforms* the decorated code (the `test` function in this example) under the hood, so that it can run in parallel on many cores. Each core operates on a different chunk of the data and communicates with other cores when necessary.''])]\<close>

definition cell_11 :: json where \<open>cell_11 =
  JObj [
    (''cell_type'', JStr ''markdown''),
    (''metadata'', JObj []),
    (''source'', JArr [
      JStr ''### Parallel Python Processes\<newline>'',
      JStr ''With Bodo, all processes are running the same code. Bodo manages parallelism inside `jit` functions to match sequential Python as much as possible. On the other hand, the code outside `jit` functions runs as regular Python on all processes. For example, the code below when run on 4 processes produces 4 prints, one for each Python process:''])]\<close>

definition cell_12 :: json where \<open>cell_12 =
  JObj [
    (''cell_type'', JStr ''code''),
    (''execution_count'', JNum 5),
    (''metadata'', JObj []),
    (''outputs'', JArr [
      JObj [
        (''name'', JStr ''stdout''),
        (''output_type'', JStr ''stream''),
        (''text'', JArr [
          JStr ''[stdout:0] 6666676000003\<newline>'',
          JStr ''[stdout:1] 6666676000003\<newline>'',
          JStr ''[stdout:2] 6666676000003\<newline>'',
          JStr ''[stdout:3] 6666676000003\<newline>''])]]),
    (''source'', JArr [
      JStr ''%%px --block\<newline>'',
      JStr ''\<newline>'',
      JStr ''@bodo.jit\<newline>'',
      JStr ''def test():\<newline>'',
      JStr ''    df = pd.read_parquet("example1.pq")\<newline>'',
      JStr ''    df2 = df.groupby("A").sum()\<newline>'',
      JStr ''    m = df2.B.max()\<newline>'',
      JStr ''    return m\<newline>'',
      JStr ''\<newline>'',
      JStr ''m = test()\<newline>'',
      JStr ''print(m)''])]\<close>

definition cell_13 :: json where \<open>cell_13 =
  JObj [
    (''cell_type'', JStr ''markdown''),
    (''metadata'', JObj []),
    (''source'', JArr [
      JStr ''### Prints\<newline>'',
      JStr ''Bodo prints replicated values like `m` only once (on process `0`) to avoid redundant printing, but we can use `bodo.parallel_print` to see prints on all processes:''])]\<close>

definition cell_14 :: json where \<open>cell_14 =
  JObj [
    (''cell_type'', JStr ''code''),
    (''execution_count'', JNum 6),
    (''metadata'', JObj []),
    (''outputs'', JArr [
      JObj [
        (''name'', JStr ''stdout''),
        (''output_type'', JStr ''stream''),
        (''text'', JArr [
          JStr ''[stdout:0] 6666676000003\<newline>'',
          JStr ''[stdout:1] 6666676000003\<newline>'',
          JStr ''[stdout:2] 6666676000003\<newline>'',
          JStr ''[stdout:3] 6666676000003\<newline>''])]]),
    (''source'', JArr [
      JStr ''%%px --block\<newline>'',
      JStr ''\<newline>'',
      JStr ''@bodo.jit\<newline>'',
      JStr ''def test():\<newline>'',
      JStr ''    df = pd.read_parquet("example1.pq")\<newline>'',
      JStr ''    df2 = df.groupby("A").sum()\<newline>'',
      JStr ''    m = df2.B.max()\<newline>'',
      JStr ''    bodo.parallel_print(m)\<newline>'',
      JStr ''\<newline>'',
      JStr ''test()''])]\<close>

definition cell_15 :: json where \<open>cell_15 =
  JObj [
    (''cell_type'', JStr ''markdown''),
    (''metadata'', JObj []),
    (''source'', JArr [
      JStr ''### Parallel Data Read\<newline>'',
      JStr ''\<newline>'',
      JStr ''Bodo can read data from storage such as Parquet files in parallel. This means that each process reads only its own chunk of data (which can be proportionally faster than sequential read). The example below demonstrates parallel read by printing data chunks on different cores:''])]\<close>

definition cell_16 :: json where \<open>cell_16 =
  JObj [
    (''cell_type'', JStr ''code''),
    (''execution_count'', JNum 7),
    (''metadata'', JObj []),
    (''outputs'', JArr [
      JObj [
        (''name'', JStr ''stdout''),
        (''output_type'', JStr ''stream''),
        (''text'', JArr [
          JStr ''[stdout:0] \<newline>'',
          JStr ''          A        B\<newline>'',
          JStr ''0         0        0\<newline>'',
          JStr ''1         1        1\<newline>'',
          JStr ''2         2        2\<newline>'',
          JStr ''3         3        3\<newline>'',
          JStr ''4         4        4\<newline>'',
          JStr ''...      ..      ...\<newline>'',
          JStr ''4999995  15  4999995\<newline>'',
          JStr ''4999996  16  4999996\<newline>'',
          JStr ''4999997  17  4999997\<newline>'',
          JStr ''4999998  18  4999998\<newline>'',
          JStr ''4999999  19  4999999\<newline>'',
          JStr ''\<newline>'',
          JStr ''[5000000 rows x 2 columns]\<newline>'',
          JStr ''[stdout:1] \<newline>'',
          JStr ''          A        B\<newline>'',
          JStr ''5000000  20  5000000\<newline>'',
          JStr ''5000001  21  5000001\<newline>'',
          JStr ''5000002  22  5000002\<newline>'',
          JStr ''5000003  23  5000003\<newline>'',
          JStr ''5000004  24  5000004\<newline>'',
          JStr ''...      ..      ...\<newline>'',
          JStr ''9999995   5  9999995\<newline>'',
          JStr ''9999996   6  9999996\<newline>'',
          JStr ''9999997   7  9999997\<newline>'',
          JStr ''9999998   8  9999998\<newline>'',
          JStr ''9999999   9  9999999\<newline>'',
          JStr ''\<newline>'',
          JStr ''[5000000 rows x 2 columns]\<newline>'',
          JStr ''[stdout:2] \<newline>'',
          JStr ''           A         B\<newline>'',
          JStr ''10000000  10  10000000\<newline>'',
          JStr ''10000001  11  10000001\<newline>'',
          JStr ''10000002  12  10000002\<newline>'',
          JStr ''10000003  13  10000003\<newline>'',
          JStr ''10000004  14  10000004\<newline>'',
          JStr ''...       ..       ...\<newline>'',
          JStr ''14999995  25  14999995\<newline>'',
          JStr ''14999996  26  14999996\<newline>'',
          JStr ''14999997  27  14999997\<newline>'',
          JStr ''14999998  28  14999998\<newline>'',
          JStr ''14999999  29  14999999\<newline>'',
          JStr ''\<newline>'',
          JStr ''[5000000 rows x 2 columns]\<newline>'',
          JStr ''[stdout:3] \<newline>'',
          JStr ''           A         B\<newline>'',
          JStr ''15000000   0  15000000\<newline>'',
          JStr ''15000001   1  15000001\<newline>'',
          JStr ''15000002   2  15000002\<newline>'',
          JStr ''15000003   3  15000003\<newline>'',
          JStr ''15000004   4  15000004\<newline>'',
          JStr ''...       ..       ...\<newline>'',
          JStr ''19999995  15  19999995\<newline>'',
          JStr ''19999996  16  19999996\<newline>'',
          JStr ''19999997  17  19999997\<newline>'',
          JStr ''19999998  18  19999998\<newline>'',
          JStr ''19999999  19  19999999\<newline>'',
          JStr ''\<newline>'',
          JStr ''[5000000 rows x 2 columns]\<newline>''])]]),
    (''source'', JArr [
      JStr ''%%px --block\<newline>'',
      JStr ''\<newline>'',
      JStr ''@bodo.jit\<newline>'',
      JStr ''def test():\<newline>'',
      JStr ''    df = pd.read_parquet("example1.pq")\<newline>'',
      JStr ''    print(df)\<newline>'',
      JStr ''\<newline>'',
      JStr ''test()''])]\<close>

definition cell_17 :: json where \<open>cell_17 =
  JObj [
    (''cell_type'', JStr ''markdown''),
    (''metadata'', JObj []),
    (''source'', JArr [
      JStr ''Looking at column B, we can clearly see that each process has a separate chunk of the original dataframe. ''])]\<close>

definition cell_18 :: json where \<open>cell_18 =
  JObj [
    (''cell_type'', JStr ''markdown''),
    (''metadata'', JObj []),
    (''source'', JArr [
      JStr ''### Parallelizing Computation\<newline>'',
      JStr ''\<newline>'',
      JStr ''![Groupby shuffle communication pattern](img/groupby.jpg)\<newline>'',
      JStr ''\<newline>'',
      JStr ''Bodo parallelizes computation automatically by dividing the work between cores and performing the necessary data communication. For example, the `groupby` operation in our example needs the data of each group to be on the same processor. This requires *shuffling* data across the cluster. Bodo uses [MPI](https://en.wikipedia.org/wiki/Message_Passing_Interface) for efficient communication, which is usually much faster than alternative methods.''])]\<close>

definition cell_19 :: json where \<open>cell_19 =
  JObj [
    (''cell_type'', JStr ''markdown''),
    (''metadata'', JObj []),
    (''source'', JArr [
      JStr ''### Parallel Write\<newline>'',
      JStr ''\<newline>'',
      JStr ''Bodo can write data to storage in parallel as well:''])]\<close>

definition cell_20 :: json where \<open>cell_20 =
  JObj [
    (''cell_type'', JStr ''code''),
    (''execution_count'', JNum 8),
    (''metadata'', JObj []),
    (''outputs'', JArr []),
    (''source'', JArr [
      JStr ''%%px --block\<newline>'',
      JStr ''\<newline>'',
      JStr ''@bodo.jit\<newline>'',
      JStr ''def test():\<newline>'',
      JStr ''    df = pd.read_parquet("example1.pq")\<newline>'',
      JStr ''    df2 = df.groupby("A").sum()\<newline>'',
      JStr ''    df2.to_parquet("example1-df2.pq")\<newline>'',
      JStr ''\<newline>'',
      JStr ''test()''])]\<close>

definition cell_21 :: json where \<open>cell_21 =
  JObj [
    (''cell_type'', JStr ''markdown''),
    (''metadata'', JObj []),
    (''source'', JArr [
      JStr ''Now let\'s read and print the results with pandas:''])]\<close>

definition cell_22 :: json where \<open>cell_22 =
  JObj [
    (''cell_type'', JStr ''code''),
    (''execution_count'', JNum 9),
    (''metadata'', JObj []),
    (''outputs'', JArr [
      JObj [
        (''name'', JStr ''stdout''),
        (''output_type'', JStr ''stream''),
        (''text'', JArr [
          JStr ''                B\<newline>'',
          JStr ''A                \<newline>'',
          JStr ''0   6666663333330\<newline>'',
          JStr ''4   6666665999998\<newline>'',
          JStr ''6   6666667333332\<newline>'',
          JStr ''16  6666674000002\<newline>'',
          JStr ''20  6666656666670\<newline>'',
          JStr ''24  6666659333334\<newline>'',
          JStr ''28  6666661999998\<newline>'',
          JStr ''1   6666663999997\<newline>'',
          JStr ''7   6666667999999\<newline>'',
          JStr ''8   6666668666666\<newline>'',
          JStr ''11  6666670666667\<newline>'',
          JStr ''12  6666671333334\<newline>'',
          JStr ''13  6666672000001\<newline>'',
          JStr ''15  6666673333335\<newline>'',
          JStr ''18  6666675333336\<newline>'',
          JStr ''5   6666666666665\<newline>'',
          JStr ''19  6666676000003\<newline>'',
          JStr ''21  6666657333336\<newline>'',
          JStr ''22  6666658000002\<newline>'',
          JStr ''23  6666658666668\<newline>'',
          JStr ''29  6666662666664\<newline>'',
          JStr ''2   6666664666664\<newline>'',
          JStr ''3   6666665333331\<newline>'',
          JStr ''9   6666669333333\<newline>'',
          JStr ''10  6666670000000\<newline>'',
          JStr ''14  6666672666668\<newline>'',
          JStr ''17  6666674666669\<newline>'',
          JStr ''25  6666660000000\<newline>'',
          JStr ''26  6666660666666\<newline>'',
          JStr ''27  6666661333332\<newline>''])]]),
    (''source'', JArr [
      JStr ''import pandas as pd\<newline>'',
      JStr ''\<newline>'',
      JStr ''df = pd.read_parquet("example1-df2.pq")\<newline>'',
      JStr ''print(df)''])]\<close>

definition cell_23 :: json where \<open>cell_23 =
  JObj [
    (''cell_type'', JStr ''markdown''),
    (''metadata'', JObj []),
    (''source'', JArr [
      JStr ''The order of the `groupby` results generated by Bodo can differ from pandas since Bodo doesn\'t automatically sort the output distributed data (it is expensive and not necessary in many cases). Users can explicitly sort dataframes at any point if desired.''])]\<close>

definition cell_24 :: json where \<open>cell_24 =
  JObj [
    (''cell_type'', JStr ''markdown''),
    (''metadata'', JObj []),
    (''source'', JArr [
      JStr ''### Specifying Data Distribution\<newline>'',
      JStr ''\<newline>'',
      JStr ''Bodo automatically distributes data and computation in Bodo functions by analyzing them for parallelization. However, Bodo does not know how input parameters of Bodo functions are distributed, and similarly how the user wants to handle return values. As such, Bodo assumes that input parameters and return values are *replicated* by default, meaning that every process receives the same input data and returns the same output, as opposed to different data chunks.\<newline>'',
      JStr ''\<newline>'',
      JStr ''<div class="alert alert-block alert-warning"\<newline>'',
      JStr ''<b>Important:</b> The distribution scheme of input parameters and return values determines the distribution scheme for variables inside the Bodo function that depend on them.\<newline>'',
      JStr ''</div>\<newline>'',
      JStr ''\<newline>'',
      JStr ''To illustrate this effect, let\'s return the `groupby` output from the Bodo function:''])]\<close>

definition cell_25 :: json where \<open>cell_25 =
  JObj [
    (''cell_type'', JStr ''code''),
    (''execution_count'', JNum 10),
    (''metadata'', JObj []),
    (''outputs'', JArr [
      JObj [
        (''name'', JStr ''stdout''),
        (''output_type'', JStr ''stream''),
        (''text'', JArr [
          JStr ''[stdout:0] \<newline>'',
          JStr ''                B\<newline>'',
          JStr ''A                \<newline>'',
          JStr ''0   6666663333330\<newline>'',
          JStr ''1   6666663999997\<newline>'',
          JStr ''2   6666664666664\<newline>'',
          JStr ''3   6666665333331\<newline>'',
          JStr ''4   6666665999998\<newline>'',
          JStr ''5   6666666666665\<newline>'',
          JStr ''6   6666667333332\<newline>'',
          JStr ''7   6666667999999\<newline>'',
          JStr ''8   6666668666666\<newline>'',
          JStr ''9   6666669333333\<newline>'',
          JStr ''10  6666670000000\<newline>'',
          JStr ''11  6666670666667\<newline>'',
          JStr ''12  6666671333334\<newline>'',
          JStr ''13  6666672000001\<newline>'',
          JStr ''14  6666672666668\<newline>'',
          JStr ''15  6666673333335\<newline>'',
          JStr ''16  6666674000002\<newline>'',
          JStr ''17  6666674666669\<newline>'',
          JStr ''18  6666675333336\<newline>'',
          JStr ''19  6666676000003\<newline>'',
          JStr ''20  6666656666670\<newline>'',
          JStr ''21  6666657333336\<newline>'',
          JStr ''22  6666658000002\<newline>'',
          JStr ''23  6666658666668\<newline>'',
          JStr ''24  6666659333334\<newline>'',
          JStr ''25  6666660000000\<newline>'',
          JStr ''26  6666660666666\<newline>'',
          JStr ''27  6666661333332\<newline>'',
          JStr ''28  6666661999998\<newline>'',
          JStr ''29  6666662666664\<newline>'',
          JStr ''[stdout:1] \<newline>'',
          JStr ''                B\<newline>'',
          JStr ''A                \<newline>'',
          JStr ''0   6666663333330\<newline>'',
          JStr ''1   6666663999997\<newline>'',
          JStr ''2   6666664666664\<newline>'',
          JStr ''3   6666665333331\<newline>'',
          JStr ''4   6666665999998\<newline>'',
          JStr ''5   6666666666665\<newline>'',
          JStr ''6   6666667333332\<newline>'',
          JStr ''7   6666667999999\<newline>'',
          JStr ''8   6666668666666\<newline>'',
          JStr ''9   6666669333333\<newline>'',
          JStr ''10  6666670000000\<newline>'',
          JStr ''11  6666670666667\<newline>'',
          JStr ''12  6666671333334\<newline>'',
          JStr ''13  6666672000001\<newline>'',
          JStr ''14  6666672666668\<newline>'',
          JStr ''15  6666673333335\<newline>'',
          JStr ''16  6666674000002\<newline>'',
          JStr ''17  6666674666669\<newline>'',
          JStr ''18  6666675333336\<newline>'',
          JStr ''19  6666676000003\<newline>'',
          JStr ''20  6666656666670\<newline>'',
          JStr ''21  6666657333336\<newline>'',
          JStr ''22  6666658000002\<newline>'',
          JStr ''23  6666658666668\<newline>'',
          JStr ''24  6666659333334\<newline>'',
          JStr ''25  6666660000000\<newline>'',
          JStr ''26  6666660666666\<newline>'',
          JStr ''27  6666661333332\<newline>'',
          JStr ''28  6666661999998\<newline>'',
          JStr ''29  6666662666664\<newline>'',
          JStr ''[stdout:2] \<newline>'',
          JStr ''                B\<newline>'',
          JStr ''A                \<newline>'',
          JStr ''0   6666663333330\<newline>'',
          JStr ''1   6666663999997\<newline>'',
          JStr ''2   6666664666664\<newline>'',
          JStr ''3   6666665333331\<newline>'',
          JStr ''4   6666665999998\<newline>'',
          JStr ''5   6666666666665\<newline>'',
          JStr ''6   6666667333332\<newline>'',
          JStr ''7   6666667999999\<newline>'',
          JStr ''8   6666668666666\<newline>'',
          JStr ''9   6666669333333\<newline>'',
          JStr ''10  6666670000000\<newline>'',
          JStr ''11  6666670666667\<newline>'',
          JStr ''12  6666671333334\<newline>'',
          JStr ''13  6666672000001\<newline>'',
          JStr ''14  6666672666668\<newline>'',
          JStr ''15  6666673333335\<newline>'',
          JStr ''16  6666674000002\<newline>'',
          JStr ''17  6666674666669\<newline>'',
          JStr ''18  6666675333336\<newline>'',
          JStr ''19  6666676000003\<newline>'',
          JStr ''20  6666656666670\<newline>'',
          JStr ''21  6666657333336\<newline>'',
          JStr ''22  6666658000002\<newline>'',
          JStr ''23  6666658666668\<newline>'',
          JStr ''24  6666659333334\<newline>'',
          JStr ''25  6666660000000\<newline>'',
          JStr ''26  6666660666666\<newline>'',
          JStr ''27  6666661333332\<newline>'',
          JStr ''28  6666661999998\<newline>'',
          JStr ''29  6666662666664\<newline>'',
          JStr ''[stdout:3] \<newline>'',
          JStr ''                B\<newline>'',
          JStr ''A                \<newline>'',
          JStr ''0   6666663333330\<newline>'',
          JStr ''1   6666663999997\<newline>'',
          JStr ''2   6666664666664\<newline>'',
          JStr ''3   6666665333331\<newline>'',
          JStr ''4   6666665999998\<newline>'',
          JStr ''5   6666666666665\<newline>'',
          JStr ''6   6666667333332\<newline>'',
          JStr ''7   6666667999999\<newline>'',
          JStr ''8   6666668666666\<newline>'',
          JStr ''9   6666669333333\<newline>'',
          JStr ''10  6666670000000\<newline>'',
          JStr ''11  6666670666667\<newline>'',
          JStr ''12  6666671333334\<newline>'',
          JStr ''13  6666672000001\<newline>'',
          JStr ''14  6666672666668\<newline>'',
          JStr ''15  6666673333335\<newline>'',
          JStr ''16  6666674000002\<newline>'',
          JStr ''17  6666674666669\<newline>'',
          JStr ''18  6666675333336\<newline>'',
          JStr ''19  6666676000003\<newline>'',
          JStr ''20  6666656666670\<newline>'',
          JStr ''21  6666657333336\<newline>'',
          JStr ''22  6666658000002\<newline>'',
          JStr ''23  6666658666668\<newline>'',
          JStr ''24  6666659333334\<newline>'',
          JStr ''25  6666660000000\<newline>'',
          JStr ''26  6666660666666\<newline>'',
          JStr ''27  6666661333332\<newline>'',
          JStr ''28  6666661999998\<newline>'',
          JStr ''29  6666662666664\<newline>''])],
      JObj [
        (''name'', JStr ''stderr''),
        (''output_type'', JStr ''stream''),
        (''text'', JArr [
          JStr ''[stderr:0] \<newline>'',
          JStr ''/bodo/bodo/transforms/distributed_analysis.py:233: BodoWarning: No parallelism found for function \'test\'. This could be due to unsupported usage. See distributed diagnostics for more information.\<newline>'',
          JStr ''  "information.".format(self.func_ir.func_id.func_name)\<newline>''])]]),
    (''source'', JArr [
      JStr ''%%px --block\<newline>'',
      JStr ''import pandas as pd\<newline>'',
      JStr ''import bodo\<newline>'',
      JStr ''\<newline>'',
      JStr ''@bodo.jit\<newline>'',
      JStr ''def test():\<newline>'',
      JStr ''    df = pd.read_parquet("example1.pq")\<newline>'',
      JStr ''    df2 = df.groupby("A").sum()\<newline>'',
      JStr ''    return df2\<newline>'',
      JStr ''\<newline>'',
      JStr ''df2 = test()\<newline>'',
      JStr ''print(df2)''])]\<close>

definition cell_26 :: json where \<open>cell_26 =
  JObj [
    (''cell_type'', JStr ''markdown''),
    (''metadata'', JObj []),
    (''source'', JArr [
      JStr ''As we can see, `df2` has the same data on every process. Furthermore, Bodo warns that it didn\'t find any parallelism inside the `test` function. In this example, every process reads the whole input Parquet file and executes the same sequential program. The reason is that Bodo makes sure all variables dependent on `df2` have the same distribution, creating an inverse cascading effect.''])]\<close>

definition cell_27 :: json where \<open>cell_27 =
  JObj [
    (''cell_type'', JStr ''markdown''),
    (''metadata'', JObj []),
    (''source'', JArr [
      JStr ''### `distributed` Flag\<newline>'',
      JStr ''\<newline>'',
      JStr ''The user can tell Bodo what input/output variables should be distributed using the `distributed` flag:''])]\<close>

definition cell_28 :: json where \<open>cell_28 =
  JObj [
    (''cell_type'', JStr ''code''),
    (''execution_count'', JNum 11),
    (''metadata'', JObj []),
    (''outputs'', JArr [
      JObj [
        (''name'', JStr ''stdout''),
        (''output_type'', JStr ''stream''),
        (''text'', JArr [
          JStr ''[stdout:0] \<newline>'',
          JStr ''                B\<newline>'',
          JStr ''A                \<newline>'',
          JStr ''0   6666663333330\<newline>'',
          JStr ''4   6666665999998\<newline>'',
          JStr ''6   6666667333332\<newline>'',
          JStr ''16  6666674000002\<newline>'',
          JStr ''20  6666656666670\<newline>'',
          JStr ''24  6666659333334\<newline>'',
          JStr ''28  6666661999998\<newline>'',
          JStr ''[stdout:1] \<newline>'',
          JStr ''                B\<newline>'',
          JStr ''A                \<newline>'',
          JStr ''1   6666663999997\<newline>'',
          JStr ''7   6666667999999\<newline>'',
          JStr ''8   6666668666666\<newline>'',
          JStr ''11  6666670666667\<newline>'',
          JStr ''12  6666671333334\<newline>'',
          JStr ''13  6666672000001\<newline>'',
          JStr ''15  6666673333335\<newline>'',
          JStr ''18  6666675333336\<newline>'',
          JStr ''[stdout:2] \<newline>'',
          JStr ''                B\<newline>'',
          JStr ''A                \<newline>'',
          JStr ''5   6666666666665\<newline>'',
          JStr ''19  6666676000003\<newline>'',
          JStr ''21  6666657333336\<newline>'',
          JStr ''22  6666658000002\<newline>'',
          JStr ''23  6666658666668\<newline>'',
          JStr ''29  6666662666664\<newline>'',
          JStr ''[stdout:3] \<newline>'',
          JStr ''                B\<newline>'',
          JStr ''A                \<newline>'',
          JStr ''2   6666664666664\<newline>'',
          JStr ''3   6666665333331\<newline>'',
          JStr ''9   6666669333333\<newline>'',
          JStr ''10  6666670000000\<newline>'',
          JStr ''14  6666672666668\<newline>'',
          JStr ''17  6666674666669\<newline>'',
          JStr ''25  6666660000000\<newline>'',
          JStr ''26  6666660666666\<newline>'',
          JStr ''27  6666661333332\<newline>''])]]),
    (''source'', JArr [
      JStr ''%%px --block\<newline>'',
      JStr ''\<newline>'',
      JStr ''@bodo.jit(distributed=["df2"])\<newline>'',
      JStr ''def test():\<newline>'',
      JStr ''    df = pd.read_parquet("example1.pq")\<newline>'',
      JStr ''    df2 = df.groupby("A").sum()\<newline>'',
      JStr ''    return df2\<newline>'',
      JStr ''\<newline>'',
      JStr ''df2 = test()\<newline>'',
      JStr ''print(df2)''])]\<close>

definition cell_29 :: json where \<open>cell_29 =
  JObj [
    (''cell_type'', JStr ''markdown''),
    (''metadata'', JObj []),
    (''source'', JArr [
      JStr ''In this case, the program is fully parallelized and chunks of data are returned to Python on different processes.''])]\<close>

definition cell_30 :: json where \<open>cell_30 =
  JObj [
    (''cell_type'', JStr ''markdown''),
    (''metadata'', JObj []),
    (''source'', JArr [
      JStr ''### Basic benchmarking of the pandas example\<newline>'',
      JStr ''Now let\'s do some basic benchmarking to observe the effect of Bodo\'s automatic parallelization. Here we are only scaling up to a few cores, but Bodo can scale the same code to thousands of cores in a cluster.\<newline>'',
      JStr ''\<newline>'',
      JStr ''Let\'s add timers and run the code again with pandas:''])]\<close>

definition cell_31 :: json where \<open>cell_31 =
  JObj [
    (''cell_type'', JStr ''code''),
    (''execution_count'', JNum 14),
    (''metadata'', JObj []),
    (''outputs'', JArr [
      JObj [
        (''name'', JStr ''stdout''),
        (''output_type'', JStr ''stream''),
        (''text'', JArr [
          JStr ''Compute time: 0.7629697322845459 secs\<newline>''])]]),
    (''source'', JArr [
      JStr ''import pandas as pd\<newline>'',
      JStr ''import time\<newline>'',
      JStr ''\<newline>'',
      JStr ''def test():\<newline>'',
      JStr ''    df = pd.read_parquet("example1.pq")\<newline>'',
      JStr ''    t0 = time.time()\<newline>'',
      JStr ''    df2 = df.groupby("A").sum()\<newline>'',
      JStr ''    m = df2.B.max()\<newline>'',
      JStr ''    print("Compute time:", time.time() - t0, "secs")\<newline>'',
      JStr ''    return m\<newline>'',
      JStr ''\<newline>'',
      JStr ''result = test()''])]\<close>

definition cell_32 :: json where \<open>cell_32 =
  JObj [
    (''cell_type'', JStr ''markdown''),
    (''metadata'', JObj []),
    (''source'', JArr [
      JStr ''Now let\'s measure Bodo\'s execution time.''])]\<close>

definition cell_33 :: json where \<open>cell_33 =
  JObj [
    (''cell_type'', JStr ''code''),
    (''execution_count'', JNum 17),
    (''metadata'', JObj []),
    (''outputs'', JArr [
      JObj [
        (''name'', JStr ''stdout''),
        (''output_type'', JStr ''stream''),
        (''text'', JArr [
          JStr ''[stdout:0] Compute time: 0.15030407905578613 secs\<newline>''])]]),
    (''source'', JArr [
      JStr ''%%px --block\<newline>'',
      JStr ''import time\<newline>'',
      JStr ''\<newline>'',
      JStr ''@bodo.jit\<newline>'',
      JStr ''def test():\<newline>'',
      JStr ''    df = pd.read_parquet("example1.pq")\<newline>'',
      JStr ''    t0 = time.time()\<newline>'',
      JStr ''    df2 = df.groupby("A").sum()\<newline>'',
      JStr ''    m = df2.B.max()\<newline>'',
      JStr ''    print("Compute time:", time.time() - t0, "secs")\<newline>'',
      JStr ''    return m\<newline>'',
      JStr ''\<newline>'',
      JStr ''result = test()''])]\<close>

definition cell_34 :: json where \<open>cell_34 =
  JObj [
    (''cell_type'', JStr ''markdown''),
    (''metadata'', JObj []),
    (''source'', JArr [
      JStr ''As we can see, Bodo computes results faster than pandas using parallel computation. The speedup depends on the data and program characteristics, as well as the number of cores used. Usually, we can continue scaling to many more cores as long as the data is large enough.\<newline>'',
      JStr ''\<newline>'',
      JStr ''Note how we included timers inside the Bodo function. This avoids measuring compilation time since Bodo compiles each `jit` function the first time it is called. Not measuring compilation time in benchmarking is usually important since:\<newline>'',
      JStr ''\<newline>'',
      JStr ''1. Compilation time is often not significant for large computations in real settings but simple benchmarks are designed to run quickly\<newline>'',
      JStr ''2. Functions can potentially be compiled and cached ahead of execution time\<newline>'',
      JStr ''3. Compilation happens only once but the same function may be called multiple times, leading to inconsistent measurements''])]\<close>

definition cell_35 :: json where \<open>cell_35 =
  JObj [
    (''cell_type'', JStr ''markdown''),
    (''metadata'', JObj []),
    (''source'', JArr [
      JStr ''### Pandas User-Defined Functions\<newline>'',
      JStr ''User-defined functions (UDFs) offer significant flexibility but have high overhead in Pandas. Bodo can accelerate UDFs significantly, allowing flexibility without performance overheads. Let\'s modify our example to use UDFs and measure  performance again:''])]\<close>

definition cell_36 :: json where \<open>cell_36 =
  JObj [
    (''cell_type'', JStr ''code''),
    (''execution_count'', JNum 16),
    (''metadata'', JObj []),
    (''outputs'', JArr [
      JObj [
        (''name'', JStr ''stdout''),
        (''output_type'', JStr ''stream''),
        (''text'', JArr [
          JStr ''Compute time: 3.4350690841674805 secs\<newline>''])]]),
    (''source'', JArr [
      JStr ''def test():\<newline>'',
      JStr ''    df = pd.read_parquet("example1.pq")\<newline>'',
      JStr ''    t0 = time.time()\<newline>'',
      JStr ''    df2 = df.groupby("A")["B"].agg((lambda a: (a==1).sum(), lambda a: (a==2).sum(), lambda a: (a==3).sum()))\<newline>'',
      JStr ''    m = df2.mean()\<newline>'',
      JStr ''    print("Compute time:", time.time() - t0, "secs")\<newline>'',
      JStr ''    return m\<newline>'',
      JStr ''\<newline>'',
      JStr ''result = test()''])]\<close>

definition cell_37 :: json where \<open>cell_37 =
  JObj [
    (''cell_type'', JStr ''markdown''),
    (''metadata'', JObj []),
    (''source'', JArr [
      JStr ''Running this example with Bodo is significantly faster, even on a single core:''])]\<close>

definition cell_38 :: json where \<open>cell_38 =
  JObj [
    (''cell_type'', JStr ''code''),
    (''execution_count'', JNum 19),
    (''metadata'', JObj []),
    (''outputs'', JArr [
      JObj [
        (''name'', JStr ''stdout''),
        (''output_type'', JStr ''stream''),
        (''text'', JArr [
          JStr ''Compute time: 0.7699737200746313 secs\<newline>''])]]),
    (''source'', JArr [
      JStr ''import bodo\<newline>'',
      JStr ''\<newline>'',
      JStr ''@bodo.jit\<newline>'',
      JStr ''def test():\<newline>'',
      JStr ''    df = pd.read_parquet("example1.pq")\<newline>'',
      JStr ''    t0 = time.time()\<newline>'',
      JStr ''    df2 = df.groupby("A")["B"].agg((lambda a: (a==1).sum(), lambda a: (a==2).sum(), lambda a: (a==3).sum()))\<newline>'',
      JStr ''    m = df2.mean()\<newline>'',
      JStr ''    print("Compute time:", time.time() - t0, "secs")\<newline>'',
      JStr ''    return m\<newline>'',
      JStr ''\<newline>'',
      JStr ''result = test()''])]\<close>

definition cell_39 :: json where \<open>cell_39 =
  JObj [
    (''cell_type'', JStr ''markdown''),
    (''metadata'', JObj []),
    (''source'', JArr [
      JStr ''Bodo\'s parallelism improves performance further:''])]\<close>

definition cell_40 :: json where \<open>cell_40 =
  JObj [
    (''cell_type'', JStr ''code''),
    (''execution_count'', JNum 17),
    (''metadata'', JObj []),
    (''outputs'', JArr [
      JObj [
        (''name'', JStr ''stdout''),
        (''output_type'', JStr ''stream''),
        (''text'', JArr [
          JStr ''[stdout:0] Compute time: 0.2205293399747461 secs\<newline>''])]]),
    (''source'', JArr [
      JStr ''%%px --block\<newline>'',
      JStr ''\<newline>'',
      JStr ''@bodo.jit\<newline>'',
      JStr ''def test():\<newline>'',
      JStr ''    df = pd.read_parquet("example1.pq")\<newline>'',
      JStr ''    t0 = time.time()\<newline>'',
      JStr ''    df2 = df.groupby("A")["B"].agg((lambda a: (a==1).sum(), lambda a: (a==2).sum(), lambda a: (a==3).sum()))\<newline>'',
      JStr ''    m = df2.mean()\<newline>'',
      JStr ''    print("Compute time:", time.time() - t0, "secs")\<newline>'',
      JStr ''    return m\<newline>'',
      JStr ''\<newline>'',
      JStr ''result = test()''])]\<close>

definition cell_41 :: json where \<open>cell_41 =
  JObj [
    (''cell_type'', JStr ''markdown''),
    (''metadata'', JObj []),
    (''source'', JArr [
      JStr ''## Memory Optimizations in Bodo\<newline>'',
      JStr ''Bodo also improves performance by eliminating intermediate array values in computations such as expressions in Pandas and Numpy. The Monte Carlo Pi Estimation example demonstrates this effect:''])]\<close>

definition cell_42 :: json where \<open>cell_42 =
  JObj [
    (''cell_type'', JStr ''code''),
    (''execution_count'', JNum 20),
    (''metadata'', JObj []),
    (''outputs'', JArr [
      JObj [
        (''name'', JStr ''stdout''),
        (''output_type'', JStr ''stream''),
        (''text'', JArr [
          JStr ''Execution time: 9.244210243225098 \<newline>'',
          JStr ''result: 3.14168272\<newline>''])]]),
    (''source'', JArr [
      JStr ''import numpy as np\<newline>'',
      JStr ''\<newline>'',
      JStr ''def calc_pi(n):\<newline>'',
      JStr ''    t1 = time.time()\<newline>'',
      JStr ''    x = 2 * np.random.ranf(n) - 1\<newline>'',
      JStr ''    y = 2 * np.random.ranf(n) - 1\<newline>'',
      JStr ''    pi = 4 * np.sum(x**2 + y**2 < 1) / n\<newline>'',
      JStr (''    print("Execution time:", time.time()-t1, "'' @ [CHR 0x5C] @ ''nresult:", pi)\<newline>''),
      JStr ''\<newline>'',
      JStr ''calc_pi(2 * 10**8)''])]\<close>

definition cell_43 :: json where \<open>cell_43 =
  JObj [
    (''cell_type'', JStr ''markdown''),
    (''metadata'', JObj []),
    (''source'', JArr [
      JStr ''Bodo is faster even on a single core since it avoids creating arrays alltogether:''])]\<close>

definition cell_44 :: json where \<open>cell_44 =
  JObj [
    (''cell_type'', JStr ''code''),
    (''execution_count'', JNum 21),
    (''metadata'', JObj []),
    (''outputs'', JArr [
      JObj [
        (''name'', JStr ''stdout''),
        (''output_type'', JStr ''stream''),
        (''text'', JArr [
          JStr ''Execution time: 2.1929816810879856 \<newline>'',
          JStr ''result: 3.14158668\<newline>''])]]),
    (''source'', JArr [
      JStr ''@bodo.jit\<newline>'',
      JStr ''def calc_pi(n):\<newline>'',
      JStr ''    t1 = time.time()\<newline>'',
      JStr ''    x = 2 * np.random.ranf(n) - 1\<newline>'',
      JStr ''    y = 2 * np.random.ranf(n) - 1\<newline>'',
      JStr ''    pi = 4 * np.sum(x**2 + y**2 < 1) / n\<newline>'',
      JStr (''    print("Execution time:", time.time()-t1, "'' @ [CHR 0x5C] @ ''nresult:", pi)\<newline>''),
      JStr ''\<newline>'',
      JStr ''calc_pi(2 * 10**8)''])]\<close>

definition cell_45 :: json where \<open>cell_45 =
  JObj [
    (''cell_type'', JStr ''markdown''),
    (''metadata'', JObj []),
    (''source'', JArr [
      JStr ''Data-parallel array computations typically scale well too:''])]\<close>

definition cell_46 :: json where \<open>cell_46 =
  JObj [
    (''cell_type'', JStr ''code''),
    (''execution_count'', JNum 22),
    (''metadata'', JObj []),
    (''outputs'', JArr [
      JObj [
        (''name'', JStr ''stdout''),
        (''output_type'', JStr ''stream''),
        (''text'', JArr [
          JStr ''[stdout:0] \<newline>'',
          JStr ''Execution time: 0.5737681119935587 \<newline>'',
          JStr ''result: 3.14162074\<newline>''])]]),
    (''source'', JArr [
      JStr ''%%px --block\<newline>'',
      JStr ''import numpy as np\<newline>'',
      JStr ''\<newline>'',
      JStr ''@bodo.jit\<newline>'',
      JStr ''def calc_pi(n):\<newline>'',
      JStr ''    t1 = time.time()\<newline>'',
      JStr ''    x = 2 * np.random.ranf(n) - 1\<newline>'',
      JStr ''    y = 2 * np.random.ranf(n) - 1\<newline>'',
      JStr ''    pi = 4 * np.sum(x**2 + y**2 < 1) / n\<newline>'',
      JStr (''    print("Execution time:", time.time()-t1, "'' @ [CHR 0x5C] @ ''nresult:", pi)\<newline>''),
      JStr ''\<newline>'',
      JStr ''calc_pi(2 * 10**8)''])]\<close>

definition cell_47 :: json where \<open>cell_47 =
  JObj [
    (''cell_type'', JStr ''markdown''),
    (''metadata'', JObj []),
    (''source'', JArr [
      JStr ''## Unsupported Pandas/Python Features\<newline>'',
      JStr ''### Supported Pandas Operations\<newline>'',
      JStr ''\<newline>'',
      JStr ''Bodo supports a large subset of Pandas APIs as listed [here](http://docs.bodo.ai/latest/source/pandas.html). Moreover, dataframe schemas (column names and types) should be stable in operations. For example, key column names to `group` have to be constant for output type to be stable. This example demonstrates the issue:\<newline>''])]\<close>

definition cell_48 :: json where \<open>cell_48 =
  JObj [
    (''cell_type'', JStr ''code''),
    (''execution_count'', JNum 25),
    (''metadata'', JObj []),
    (''outputs'', JArr [
      JObj [
        (''ename'', JStr ''BodoError''),
        (''evalue'', JStr ''groupby(): \'by\' parameter only supports a constant column label or column labels.\<newline>\<newline>File "<ipython-input-25-835749d04e4e>", line 5:\<newline>def f(a, i):\<newline>    <source elided>\<newline>    df = pd.DataFrame({"A": [1, 2, 1], "B": [4, 5, 6]})\<newline>    return df.groupby(column_list).sum()\<newline>    ^\<newline>''),
        (''output_type'', JStr ''error''),
        (''traceback'', JArr [
          JStr ([CHR 0x1B] @ ''[0;31m---------------------------------------------------------------------------'' @ [CHR 0x1B] @ ''[0m''),
          JStr ([CHR 0x1B] @ ''[0;31mBodoError'' @ [CHR 0x1B] @ ''[0m                                 Traceback (most recent call last)''),
          JStr ([CHR 0x1B] @ ''[0;32m<ipython-input-25-835749d04e4e>'' @ [CHR 0x1B] @ ''[0m in '' @ [CHR 0x1B] @ ''[0;36m<module>'' @ [CHR 0x1B] @ ''[0;34m'' @ [CHR 0x1B] @ ''[0m\<newline>'' @ [CHR 0x1B] @ ''[1;32m      7'' @ [CHR 0x1B] @ ''[0m '' @ [CHR 0x1B] @ ''[0ma'' @ [CHR 0x1B] @ ''[0m '' @ [CHR 0x1B] @ ''[0;34m='' @ [CHR 0x1B] @ ''[0m '' @ [CHR 0x1B] @ ''[0;34m['' @ [CHR 0x1B] @ ''[0m'' @ [CHR 0x1B] @ ''[0;34m"A"'' @ [CHR 0x1B] @ ''[0m'' @ [CHR 0x1B] @ ''[0;34m,'' @ [CHR 0x1B] @ ''[0m '' @ [CHR 0x1B] @ ''[0;34m"B"'' @ [CHR 0x1B] @ ''[0m'' @ [CHR 0x1B] @ ''[0;34m]'' @ [CHR 0x1B] @ ''[0m'' @ [CHR 0x1B] @ ''[0;34m'' @ [CHR 0x1B] @ ''[0m'' @ [CHR 0x1B] @ ''[0;34m'' @ [CHR 0x1B] @ ''[0m'' @ [CHR 0x1B] @ ''[0m\<newline>'' @ [CHR 0x1B] @ ''[1;32m      8'' @ [CHR 0x1B] @ ''[0m '' @ [CHR 0x1B] @ ''[0mi'' @ [CHR 0x1B] @ ''[0m '' @ [CHR 0x1B] @ ''[0;34m='' @ [CHR 0x1B] @ ''[0m '' @ [CHR 0x1B] @ ''[0;36m1'' @ [CHR 0x1B] @ ''[0m'' @ [CHR 0x1B] @ ''[0;34m'' @ [CHR 0x1B] @ ''[0m'' @ [CHR 0x1B] @ ''[0;34m'' @ [CHR 0x1B] @ ''[0m'' @ [CHR 0x1B] @ ''[0m\<newline>'' @ [CHR 0x1B] @ ''[0;32m----> 9'' @ [CHR 0x1B] @ ''[0;31m '' @ [CHR 0x1B] @ ''[0mf'' @ [CHR 0x1B] @ ''[0m'' @ [CHR 0x1B] @ ''[0;34m('' @ [CHR 0x1B] @ ''[0m'' @ [CHR 0x1B] @ ''[0ma'' @ [CHR 0x1B] @ ''[0m'' @ [CHR 0x1B] @ ''[0;34m,'' @ [CHR 0x1B] @ ''[0m '' @ [CHR 0x1B] @ ''[0mi'' @ [CHR 0x1B] @ ''[0m'' @ [CHR 0x1B] @ ''[0;34m)'' @ [CHR 0x1B] @ ''[0m'' @ [CHR 0x1B] @ ''[0;34m'' @ [CHR 0x1B] @ ''[0m'' @ [CHR 0x1B] @ ''[0;34m'' @ [CHR 0x1B] @ ''[0m'' @ [CHR 0x1B] @ ''[0m\<newline>'' @ [CHR 0x1B] @ ''[0m''),
          JStr ([CHR 0x1B] @ ''[0;32m~/dev/bodo/bodo/numba_compat.py'' @ [CHR 0x1B] @ ''[0m in '' @ [CHR 0x1B] @ ''[0;36m_compile_for_args'' @ [CHR 0x1B] @ ''[0;34m(***failed resolving arguments***)'' @ [CHR 0x1B] @ ''[0m\<newline>'' @ [CHR 0x1B] @ ''[1;32m    841'' @ [CHR 0x1B] @ ''[0m         '' @ [CHR 0x1B] @ ''[0;32mdel'' @ [CHR 0x1B] @ ''[0m '' @ [CHR 0x1B] @ ''[0margs'' @ [CHR 0x1B] @ ''[0m'' @ [CHR 0x1B] @ ''[0;34m'' @ [CHR 0x1B] @ ''[0m'' @ [CHR 0x1B] @ ''[0;34m'' @ [CHR 0x1B] @ ''[0m'' @ [CHR 0x1B] @ ''[0m\<newline>'' @ [CHR 0x1B] @ ''[1;32m    842'' @ [CHR 0x1B] @ ''[0m         '' @ [CHR 0x1B] @ ''[0;32mif'' @ [CHR 0x1B] @ ''[0m '' @ [CHR 0x1B] @ ''[0merror'' @ [CHR 0x1B] @ ''[0m'' @ [CHR 0x1B] @ ''[0;34m:'' @ [CHR 0x1B] @ ''[0m'' @ [CHR 0x1B] @ ''[0;34m'' @ [CHR 0x1B] @ ''[0m'' @ [CHR 0x1B] @ ''[0;34m'' @ [CHR 0x1B] @ ''[0m'' @ [CHR 0x1B] @ ''[0m\<newline>'' @ [CHR 0x1B] @ ''[0;32m--> 843'' @ [CHR 0x1B] @ ''[0;31m             '' @ [CHR 0x1B] @ ''[0;32mraise'' @ [CHR 0x1B] @ ''[0m '' @ [CHR 0x1B] @ ''[0merror'' @ [CHR 0x1B] @ ''[0m'' @ [CHR 0x1B] @ ''[0;34m'' @ [CHR 0x1B] @ ''[0m'' @ [CHR 0x1B] @ ''[0;34m'' @ [CHR 0x1B] @ ''[0m'' @ [CHR 0x1B] @ ''[0m\<newline>'' @ [CHR 0x1B] @ ''[0m'' @ [CHR 0x1B] @ ''[1;32m    844'' @ [CHR 0x1B] @ ''[0m '' @ [CHR 0x1B] @ ''[0;34m'' @ [CHR 0x1B] @ ''[0m'' @ [CHR 0x1B] @ ''[0m\<newline>'' @ [CHR 0x1B] @ ''[1;32m    845'' @ [CHR 0x1B] @ ''[0m '' @ [CHR 0x1B] @ ''[0;34m'' @ [CHR 0x1B] @ ''[0m'' @ [CHR 0x1B] @ ''[0m\<newline>''),
          JStr ([CHR 0x1B] @ ''[0;31mBodoError'' @ [CHR 0x1B] @ ''[0m: groupby(): \'by\' parameter only supports a constant column label or column labels.\<newline>\<newline>File "<ipython-input-25-835749d04e4e>", line 5:\<newline>def f(a, i):\<newline>    <source elided>\<newline>    df = pd.DataFrame({"A": [1, 2, 1], "B": [4, 5, 6]})\<newline>    return df.groupby(column_list).sum()\<newline>    ^\<newline>'')])]]),
    (''source'', JArr [
      JStr ''import bodo\<newline>'',
      JStr ''\<newline>'',
      JStr ''@bodo.jit\<newline>'',
      JStr ''def f(a, i):\<newline>'',
      JStr ''    column_list = a[:i]  # some computation that cannot be inferred statically\<newline>'',
      JStr ''    df = pd.DataFrame({"A": [1, 2, 1], "B": [4, 5, 6]})\<newline>'',
      JStr ''    return df.groupby(column_list).sum()\<newline>'',
      JStr ''\<newline>'',
      JStr ''a = ["A", "B"]\<newline>'',
      JStr ''i = 1\<newline>'',
      JStr ''f(a, i)''])]\<close>

definition cell_49 :: json where \<open>cell_49 =
  JObj [
    (''cell_type'', JStr ''markdown''),
    (''metadata'', JObj []),
    (''source'', JArr [
      JStr ''The code can most often be refactored to compute the key list in regular Python and pass as argument to Bodo:''])]\<close>

definition cell_50 :: json where \<open>cell_50 =
  JObj [
    (''cell_type'', JStr ''code''),
    (''execution_count'', JNum 26),
    (''metadata'', JObj []),
    (''outputs'', JArr [
      JObj [
        (''name'', JStr ''stderr''),
        (''output_type'', JStr ''stream''),
        (''text'', JArr [
          JStr ''/bodo/bodo/transforms/distributed_analysis.py:233: BodoWarning: No parallelism found for function \'f\'. This could be due to unsupported usage. See distributed diagnostics for more information.\<newline>'',
          JStr ''  "information.".format(self.func_ir.func_id.func_name)\<newline>''])],
      JObj [
        (''data'', JObj [
          (''text/html'', JArr [
            JStr ''<div>\<newline>'',
            JStr ''<style scoped>\<newline>'',
            JStr ''    .dataframe tbody tr th:only-of-type {\<newline>'',
            JStr ''        vertical-align: middle;\<newline>'',
            JStr ''    }\<newline>'',
            JStr ''\<newline>'',
            JStr ''    .dataframe tbody tr th {\<newline>'',
            JStr ''        vertical-align: top;\<newline>'',
            JStr ''    }\<newline>'',
            JStr ''\<newline>'',
            JStr ''    .dataframe thead th {\<newline>'',
            JStr ''        text-align: right;\<newline>'',
            JStr ''    }\<newline>'',
            JStr ''</style>\<newline>'',
            JStr ''<table border="1" class="dataframe">\<newline>'',
            JStr ''  <thead>\<newline>'',
            JStr ''    <tr style="text-align: right;">\<newline>'',
            JStr ''      <th></th>\<newline>'',
            JStr ''      <th>B</th>\<newline>'',
            JStr ''    </tr>\<newline>'',
            JStr ''    <tr>\<newline>'',
            JStr ''      <th>A</th>\<newline>'',
            JStr ''      <th></th>\<newline>'',
            JStr ''    </tr>\<newline>'',
            JStr ''  </thead>\<newline>'',
            JStr ''  <tbody>\<newline>'',
            JStr ''    <tr>\<newline>'',
            JStr ''      <th>1</th>\<newline>'',
            JStr ''      <td>10</td>\<newline>'',
            JStr ''    </tr>\<newline>'',
            JStr ''    <tr>\<newline>'',
            JStr ''      <th>2</th>\<newline>'',
            JStr ''      <td>5</td>\<newline>'',
            JStr ''    </tr>\<newline>'',
            JStr ''  </tbody>\<newline>'',
            JStr ''</table>\<newline>'',
            JStr ''</div>'']),
          (''text/plain'', JArr [
            JStr ''    B\<newline>'',
            JStr ''A    \<newline>'',
            JStr ''1  10\<newline>'',
            JStr ''2   5''])]),
        (''execution_count'', JNum 26),
        (''metadata'', JObj []),
        (''output_type'', JStr ''execute_result'')]]),
    (''source'', JArr [
      JStr ''@bodo.jit\<newline>'',
      JStr ''def f(column_list):\<newline>'',
      JStr ''    df = pd.DataFrame({"A": [1, 2, 1], "B": [4, 5, 6]})\<newline>'',
      JStr ''    return df.groupby(column_list).sum()\<newline>'',
      JStr ''\<newline>'',
      JStr ''a = ["A", "B"]\<newline>'',
      JStr ''i = 1\<newline>'',
      JStr ''column_list = a[:i]\<newline>'',
      JStr ''f(column_list)''])]\<close>

definition cell_51 :: json where \<open>cell_51 =
  JObj [
    (''cell_type'', JStr ''markdown''),
    (''metadata'', JObj []),
    (''source'', JArr [
      JStr ''### Supported Python Operations\<newline>'',
      JStr ''\<newline>'',
      JStr ''Bodo relies on Numba for supporting basic Python features. Therefore, Python constructs that are not supported by Numba (see Numba documentation [here](http://numba.pydata.org/numba-doc/latest/reference/pysupported.html)) should be avoided in Bodo programs. For example:\<newline>'',
      JStr ''\<newline>'',
      JStr ''- exceptions: `try` .. `except`, `raise`\<newline>'',
      JStr ''- context manager: `with`\<newline>'',
      JStr ''- `list`, `set`, `dict` and `generator` comprehensions\<newline>'',
      JStr ''- `async` features\<newline>'',
      JStr ''- class definition: `class`\<newline>'',
      JStr (''- string formatting, e.g. '' @ [CHR 0xE2, CHR 0x80, CHR 0x9C] @ ''A: {}'' @ [CHR 0xE2, CHR 0x80, CHR 0x9D] @ ''.format(a)\<newline>''),
      JStr ''- List containing values of heterogeneous type\<newline>'',
      JStr ''  * myList = [1, "a", 0.1]\<newline>'',
      JStr ''- Dictionary containing values of heterogeneous type\<newline>'',
      JStr ''  * myDict = {"A": 1, "B": "a", "C": 0.1}''])]\<close>

definition cell_52 :: json where \<open>cell_52 =
  JObj [
    (''cell_type'', JStr ''markdown''),
    (''metadata'', JObj []),
    (''source'', JArr [
      JStr ''### Parallel Data Structures\<newline>'',
      JStr ''\<newline>'',
      JStr ''Bodo can parallelize Pandas DataFrame and Series data structures, as well as Numpy arrays. However, collections like lists, sets and dictionaries cannot be parallelized yet.''])]\<close>

definition cells :: "json list" where
  "cells = [cell_0, cell_1, cell_2, cell_3, cell_4, cell_5, cell_6, cell_7,
    cell_8, cell_9, cell_10, cell_11, cell_12, cell_13, cell_14, cell_15,
    cell_16, cell_17, cell_18, cell_19, cell_20, cell_21, cell_22, cell_23,
    cell_24, cell_25, cell_26, cell_27, cell_28, cell_29, cell_30, cell_31,
    cell_32, cell_33, cell_34, cell_35, cell_36, cell_37, cell_38, cell_39,
    cell_40, cell_41, cell_42, cell_43, cell_44, cell_45, cell_46, cell_47,
    cell_48, cell_49, cell_50, cell_51, cell_52]"

definition notebook_metadata :: json where \<open>notebook_metadata =
  JObj [
    (''kernelspec'', JObj [
      (''display_name'', JStr ''Python 3''),
      (''language'', JStr ''python''),
      (''name'', JStr ''python3'')]),
    (''language_info'', JObj [
      (''codemirror_mode'', JObj [
        (''name'', JStr ''ipython''),
        (''version'', JNum 3)]),
      (''file_extension'', JStr ''.py''),
      (''mimetype'', JStr ''text/x-python''),
      (''name'', JStr ''python''),
      (''nbconvert_exporter'', JStr ''python''),
      (''pygments_lexer'', JStr ''ipython3''),
      (''version'', JStr ''3.8.2'')])]\<close>

definition bodo_getting_started :: json where
  "bodo_getting_started = JObj [
    (''cells'', JArr cells),
    (''metadata'', notebook_metadata),
    (''nbformat'', JNum 4),
    (''nbformat_minor'', JNum 2)]"


section \<open>Reading the notebook\<close>

definition nb_cells :: "json \<Rightarrow> json list" where
  "nb_cells nb = elements (field ''cells'' nb)"

definition cell_type :: "json \<Rightarrow> string" where
  "cell_type c = str_of (field ''cell_type'' c)"

definition source :: "json \<Rightarrow> string" where
  "source c = multiline (field ''source'' c)"

definition source_lines :: "json \<Rightarrow> string list" where
  "source_lines c = text_lines (field ''source'' c)"

definition execution_count :: "json \<Rightarrow> int option" where
  "execution_count c = int_of (field ''execution_count'' c)"

definition outputs :: "json \<Rightarrow> json list" where
  "outputs c = elements (field ''outputs'' c)"

definition code_cells :: "json \<Rightarrow> json list" where
  "code_cells nb = filter (\<lambda>c. cell_type c = ''code'') (nb_cells nb)"

definition markdown_cells :: "json \<Rightarrow> json list" where
  "markdown_cells nb = filter (\<lambda>c. cell_type c = ''markdown'') (nb_cells nb)"

text \<open>The members of an output: its type, and what each type carries.\<close>

definition output_type :: "json \<Rightarrow> string" where
  "output_type out = str_of (field ''output_type'' out)"

definition stream_name :: "json \<Rightarrow> string" where
  "stream_name out = str_of (field ''name'' out)"

definition stream_text :: "json \<Rightarrow> string" where
  "stream_text out = multiline (field ''text'' out)"

definition stream_lines :: "json \<Rightarrow> string list" where
  "stream_lines out = text_lines (field ''text'' out)"

definition ename :: "json \<Rightarrow> string" where
  "ename out = str_of (field ''ename'' out)"

definition evalue :: "json \<Rightarrow> string" where
  "evalue out = str_of (field ''evalue'' out)"

definition traceback :: "json \<Rightarrow> json list" where
  "traceback out = elements (field ''traceback'' out)"

definition mime_bundle :: "json \<Rightarrow> (string \<times> json) list" where
  "mime_bundle out = members (field ''data'' out)"

definition all_outputs :: "json \<Rightarrow> json list" where
  "all_outputs nb = concat (map outputs (nb_cells nb))"

definition is_error :: "json \<Rightarrow> bool" where
  "is_error out = (output_type out = ''error'')"

definition error_outputs :: "json \<Rightarrow> json list" where
  "error_outputs nb = filter is_error (all_outputs nb)"

text \<open>
  Texts are compared as Python does: \<open>starts_with p s\<close> is \<^verbatim>\<open>s.startswith(p)\<close> and
  \<open>contains p s\<close> is \<^verbatim>\<open>p in s\<close>.
\<close>

fun starts_with :: "string \<Rightarrow> string \<Rightarrow> bool" where
  "starts_with [] s = True"
| "starts_with (p # ps) [] = False"
| "starts_with (p # ps) (c # cs) = (if p = c then starts_with ps cs else False)"

fun contains :: "string \<Rightarrow> string \<Rightarrow> bool" where
  "contains p [] = (p = [])"
| "contains p (c # cs) = (if starts_with p (c # cs) then True else contains p cs)"

text \<open>
  The statements of Python that raise, catch or re-raise an exception begin with one of
  these keywords; a cell handles exceptions when a line of its source has one of them.
\<close>

definition exception_keywords :: "string list" where
  "exception_keywords = [''try'', ''except'', ''finally'', ''raise'']"

definition handles_exceptions :: "json \<Rightarrow> bool" where
  "handles_exceptions c =
    list_ex (\<lambda>line. list_ex (\<lambda>k. contains k line) exception_keywords) (source_lines c)"

text \<open>
  A text is a string or a list of strings. An output is text only when everything it
  carries is text: the text of a stream, the name, value and traceback of an error, and
  for a result or a display every representation of its MIME bundle, each under a
  \<^verbatim>\<open>text/\<close> MIME type.
\<close>

fun is_str :: "json \<Rightarrow> bool" where
  "is_str (JStr s) = True"
| "is_str _ = False"

fun is_text :: "json option \<Rightarrow> bool" where
  "is_text (Some (JStr s)) = True"
| "is_text (Some (JArr xs)) = list_all is_str xs"
| "is_text _ = False"

definition text_only_output :: "json \<Rightarrow> bool" where
  "text_only_output out =
    (if output_type out = ''stream'' then is_text (field ''text'' out)
     else if output_type out = ''error'' then
       is_text (field ''ename'' out) \<and> is_text (field ''evalue'' out) \<and>
       is_text (field ''traceback'' out)
     else if output_type out = ''execute_result'' \<or> output_type out = ''display_data'' then
       list_all (\<lambda>(mime, v). starts_with ''text/'' mime \<and> is_text (Some v)) (mime_bundle out)
     else False)"

definition text_only_cell :: "json \<Rightarrow> bool" where
  "text_only_cell c =
    (field ''attachments'' c = None \<and> is_text (field ''source'' c) \<and>
     list_all text_only_output (outputs c))"

text \<open>The positions of the elements of a list that satisfy \<open>P\<close>, counted from \<open>i\<close>.\<close>

fun indices_where :: "('a \<Rightarrow> bool) \<Rightarrow> nat \<Rightarrow> 'a list \<Rightarrow> nat list" where
  "indices_where P i [] = []"
| "indices_where P i (x # xs) =
    (if P x then i # indices_where P (i + 1) xs else indices_where P (i + 1) xs)"

definition code_cell_indices :: "json \<Rightarrow> nat list" where
  "code_cell_indices nb = indices_where (\<lambda>c. cell_type c = ''code'') 0 (nb_cells nb)"

definition error_cell_indices :: "json \<Rightarrow> nat list" where
  "error_cell_indices nb = indices_where (\<lambda>c. list_ex is_error (outputs c)) 0 (nb_cells nb)"

section \<open>Reading the captured text\<close>

text \<open>
  The captured outputs are console text. A printed data frame is read back line by line:
  \<open>str_split\<close> is Python's \<^verbatim>\<open>str.split()\<close> (the words between runs of white space),
  \<open>read_int\<close> reads a non-empty string of decimal digits, and a line with exactly two
  numbers is a row (key \<open>A\<close>, value \<open>B\<close>); the two header lines of a printed frame have
  one word each and are no rows.
\<close>

definition is_space :: "char \<Rightarrow> bool" where
  "is_space c = (c = CHR '' '' \<or> c = CHR 0x0A \<or> c = CHR 0x09 \<or> c = CHR 0x0D)"

fun split_acc :: "string \<Rightarrow> string \<Rightarrow> string list" where
  "split_acc w [] = (if w = [] then [] else [w])"
| "split_acc w (c # cs) =
    (if is_space c then (if w = [] then [] else [w]) @ split_acc [] cs
     else split_acc (w @ [c]) cs)"

definition str_split :: "string \<Rightarrow> string list" where
  "str_split s = split_acc [] s"

definition digit_val :: "char \<Rightarrow> int option" where
  "digit_val c =
    (let n = (of_char c :: int) in if 48 \<le> n \<and> n \<le> 57 then Some (n - 48) else None)"

fun read_digits :: "int \<Rightarrow> string \<Rightarrow> int option" where
  "read_digits acc [] = Some acc"
| "read_digits acc (c # cs) =
    (case digit_val c of None \<Rightarrow> None | Some d \<Rightarrow> read_digits (10 * acc + d) cs)"

definition read_int :: "string \<Rightarrow> int option" where
  "read_int s = (if s = [] then None else read_digits 0 s)"

definition table_row :: "string \<Rightarrow> (int \<times> int) option" where
  "table_row line =
    (case str_split line of
       [a, b] \<Rightarrow> (case (read_int a, read_int b) of
                    (Some x, Some y) \<Rightarrow> Some (x, y)
                  | _ \<Rightarrow> None)
     | _ \<Rightarrow> None)"

definition table_rows :: "string list \<Rightarrow> (int \<times> int) list" where
  "table_rows ls = List.map_filter table_row ls"

text \<open>A line that is one number, as \<^verbatim>\<open>print(m)\<close> writes it.\<close>

definition printed_int :: "string \<Rightarrow> int option" where
  "printed_int line = (case str_split line of [a] \<Rightarrow> read_int a | _ \<Rightarrow> None)"

text \<open>
  The \<^verbatim>\<open>%%px\<close> magic runs a cell on every engine and prefixes what engine \<open>k\<close> wrote
  with \<^verbatim>\<open>[stdout:k] \<close>. \<open>px_header\<close> reads such a prefix and gives \<open>k\<close> and the rest
  of the line; \<open>px_sections\<close> gives, for every prefix in turn, the engine and its lines up
  to the next prefix.
\<close>

definition px_header :: "string \<Rightarrow> (int \<times> string) option" where
  "px_header line =
    (if starts_with ''[stdout:'' line then
       (let rest = drop 8 line;
            num = takeWhile (\<lambda>c. c \<noteq> CHR '']'') rest;
            after = drop (length num) rest
        in if starts_with ''] '' after
           then map_option (\<lambda>k. (k, drop 2 after)) (read_int num)
           else None)
     else None)"

fun px_step ::
  "string \<Rightarrow> (int \<times> string list) list \<times> string list \<Rightarrow>
    (int \<times> string list) list \<times> string list" where
  "px_step line (secs, pending) =
    (case px_header line of
       Some (k, rest) \<Rightarrow> ((k, rest # pending) # secs, [])
     | None \<Rightarrow> (secs, line # pending))"

definition px_sections :: "string list \<Rightarrow> (int \<times> string list) list" where
  "px_sections ls = fst (foldr px_step ls ([], []))"

definition px_tables :: "string list \<Rightarrow> (int \<times> (int \<times> int) list) list" where
  "px_tables ls = map (\<lambda>(k, body). (k, table_rows body)) (px_sections ls)"

definition px_printed :: "string list \<Rightarrow> (int \<times> int list) list" where
  "px_printed ls = map (\<lambda>(k, body). (k, List.map_filter printed_int body)) (px_sections ls)"

definition stdout_lines :: "json \<Rightarrow> string list" where
  "stdout_lines c =
    concat (map stream_lines
      (filter (\<lambda>out. output_type out = ''stream'' \<and> stream_name out = ''stdout'') (outputs c)))"

text \<open>
  The three captured results of the grouped sum: the frame pandas read back from the
  Parquet file Bodo wrote (cell 22), the frame every engine printed when the result was
  returned replicated (cell 25), and the chunks the engines printed when it was returned
  distributed (cell 28).
\<close>

definition pandas_readback :: "json \<Rightarrow> (int \<times> int) list" where
  "pandas_readback nb = table_rows (stdout_lines (nb_cells nb ! 22))"

definition replicated_return :: "json \<Rightarrow> (int \<times> (int \<times> int) list) list" where
  "replicated_return nb = px_tables (stdout_lines (nb_cells nb ! 25))"

definition distributed_return :: "json \<Rightarrow> (int \<times> (int \<times> int) list) list" where
  "distributed_return nb = px_tables (stdout_lines (nb_cells nb ! 28))"


section \<open>The example program\<close>

text \<open>
  The one computation whose result the notebook records is the example of cells 5 and 7.
  Cell 5 builds a data frame of \<^verbatim>\<open>NUM_ROWS\<close> rows with the columns
  \<^verbatim>\<open>A = np.arange(NUM_ROWS) % NUM_GROUPS\<close> and \<^verbatim>\<open>B = np.arange(NUM_ROWS)\<close>; the
  function \<^verbatim>\<open>test\<close> of cell 7 groups it by \<open>A\<close>, sums \<open>B\<close> in every group and takes the
  maximum of the sums. A data frame is the list of its rows \<open>(A, B)\<close>. The values are
  NumPy's 64-bit integers, modelled as integers: no sum here reaches \<open>2\<^sup>6\<^sup>3\<close>.
  \<^verbatim>\<open>groupby("A").sum()\<close> has one row for every key, in ascending order of the keys, and
  the maximum of a column without rows is no number.
\<close>

definition NUM_GROUPS :: nat where "NUM_GROUPS = 30"
definition NUM_ROWS :: nat where "NUM_ROWS = 20000000"

definition arange :: "nat \<Rightarrow> int list" where
  "arange n = map int [0..<n]"

type_synonym dataframe = "(int \<times> int) list"

text \<open>\<open>generate\<close> is the frame of cell 5 for any number of groups and of rows.\<close>

definition generate :: "nat \<Rightarrow> nat \<Rightarrow> dataframe" where
  "generate groups rows = zip (map (\<lambda>x. x mod int groups) (arange rows)) (arange rows)"

definition groupby_sum :: "dataframe \<Rightarrow> dataframe" where
  "groupby_sum d =
    map (\<lambda>k. (k, sum_list (map snd (filter (\<lambda>r. fst r = k) d)))) (sort (remdups (map fst d)))"

fun column_max :: "int list \<Rightarrow> int option" where
  "column_max [] = None"
| "column_max (x # xs) = Some (fold max xs x)"

definition test :: "dataframe \<Rightarrow> int option" where
  "test d = column_max (map snd (groupby_sum d))"

definition df :: dataframe where
  "df = generate NUM_GROUPS NUM_ROWS"

text \<open>The number of rows of \<open>generate G N\<close> in group \<open>g\<close>.\<close>

definition group_count :: "nat \<Rightarrow> nat \<Rightarrow> nat \<Rightarrow> nat" where
  "group_count G N g = N div G + (if g < N mod G then 1 else 0)"


section \<open>Files the documents refer to\<close>











section \<open>Code that runs on the engines\<close>








section \<open>The structure of a notebook document\<close>

text \<open>
  Reading the JSON document as a notebook succeeds when it has the structure of the
  notebook format, version 4: the document has the members \<^verbatim>\<open>cells\<close>, \<^verbatim>\<open>metadata\<close>,
  \<^verbatim>\<open>nbformat\<close> (which is 4) and \<^verbatim>\<open>nbformat_minor\<close>; a cell has a type, metadata and a
  source text, a code cell also an execution count (a number or null) and outputs; and
  an output is a stream, an error, a result or a display with the members of its type.
  \<open>has_members req opt j\<close>: the object \<open>j\<close> has every member of \<open>req\<close>, and no member that
  is not in \<open>req\<close> or \<open>opt\<close>, and no member twice.
\<close>

definition has_members :: "string list \<Rightarrow> string list \<Rightarrow> json \<Rightarrow> bool" where
  "has_members req opt j =
    (distinct (keys j) \<and> list_all (\<lambda>k. k \<in> set (keys j)) req \<and>
     list_all (\<lambda>k. k \<in> set (req @ opt)) (keys j))"

fun is_object :: "json option \<Rightarrow> bool" where
  "is_object (Some (JObj kvs)) = True"
| "is_object _ = False"

fun is_string :: "json option \<Rightarrow> bool" where
  "is_string (Some (JStr s)) = True"
| "is_string _ = False"

fun is_number :: "json option \<Rightarrow> bool" where
  "is_number (Some (JNum n)) = True"
| "is_number _ = False"

fun is_number_or_null :: "json option \<Rightarrow> bool" where
  "is_number_or_null (Some (JNum n)) = True"
| "is_number_or_null (Some JNull) = True"
| "is_number_or_null _ = False"

fun is_array :: "json option \<Rightarrow> bool" where
  "is_array (Some (JArr xs)) = True"
| "is_array _ = False"

definition valid_output :: "json \<Rightarrow> bool" where
  "valid_output out =
    (if output_type out = ''stream'' then
       has_members [''name'', ''output_type'', ''text''] [] out \<and>
       is_string (field ''name'' out) \<and> is_text (field ''text'' out)
     else if output_type out = ''error'' then
       has_members [''ename'', ''evalue'', ''output_type'', ''traceback''] [] out \<and>
       is_string (field ''ename'' out) \<and> is_string (field ''evalue'' out) \<and>
       is_array (field ''traceback'' out) \<and> list_all is_str (traceback out)
     else if output_type out = ''execute_result'' then
       has_members [''data'', ''execution_count'', ''metadata'', ''output_type''] [] out \<and>
       is_object (field ''data'' out) \<and> is_number_or_null (field ''execution_count'' out) \<and>
       is_object (field ''metadata'' out)
     else if output_type out = ''display_data'' then
       has_members [''data'', ''metadata'', ''output_type''] [] out \<and>
       is_object (field ''data'' out) \<and> is_object (field ''metadata'' out)
     else False)"

definition valid_cell :: "json \<Rightarrow> bool" where
  "valid_cell c =
    (if cell_type c = ''code'' then
       has_members [''cell_type'', ''execution_count'', ''metadata'', ''outputs'', ''source'']
         [] c \<and>
       is_number_or_null (field ''execution_count'' c) \<and> is_object (field ''metadata'' c) \<and>
       is_text (field ''source'' c) \<and> is_array (field ''outputs'' c) \<and>
       list_all valid_output (outputs c)
     else if cell_type c = ''markdown'' \<or> cell_type c = ''raw'' then
       has_members [''cell_type'', ''metadata'', ''source''] [''attachments''] c \<and>
       is_object (field ''metadata'' c) \<and> is_text (field ''source'' c)
     else False)"

definition valid_notebook :: "json \<Rightarrow> bool" where
  "valid_notebook nb =
    (has_members [''cells'', ''metadata'', ''nbformat'', ''nbformat_minor''] [] nb \<and>
     field ''nbformat'' nb = Some (JNum 4) \<and> is_number (field ''nbformat_minor'' nb) \<and>
     is_object (field ''metadata'' nb) \<and> is_array (field ''cells'' nb) \<and>
     list_all valid_cell (nb_cells nb))"

text \<open>The language the notebook declares for its code cells.\<close>

definition nb_language :: "json \<Rightarrow> string" where
  "nb_language nb =
    str_of (Option.bind (Option.bind (field ''metadata'' nb) (field ''language_info''))
      (field ''name''))"


section \<open>The syntax of the code cells\<close>

text \<open>
  The code cells are input for IPython. A cell whose first line starts with \<^verbatim>\<open>%%\<close> is a
  cell magic: IPython hands the rest of the cell to the magic, and \<^verbatim>\<open>%%px\<close> runs it
  as Python on the engines. The first line of such a cell is not Python: \<^verbatim>\<open>%\<close> is a
  binary operator, and no Python statement begins with one.
\<close>

definition is_cell_magic :: "string list \<Rightarrow> bool" where
  "is_cell_magic ls = (case ls of [] \<Rightarrow> False | l # rest \<Rightarrow> starts_with ''%%'' l)"

definition cell_body :: "string list \<Rightarrow> string list" where
  "cell_body ls = (if is_cell_magic ls then tl ls else ls)"

text \<open>
  Python source is recognised in three steps, for the fragment of the language that the
  cells use: the tokens of every physical line, the logical lines with their indentation
  (a line goes on while a bracket is open), and the statements of the blocks. The
  recogniser is conservative: whatever it does not know it rejects, so a source it accepts
  is Python. The tokens carry no text: the grammar does not depend on which name, number
  or string stands at a place, only on the reserved words.
\<close>

datatype token =
    NAME | NUMBER | STRING
  | IMPORT | AS | DEF | RETURN | LAMBDA | KEYWORD
  | LPAR | RPAR | LSQB | RSQB | LBRACE | RBRACE
  | COMMA | COLON | DOT | EQUAL | AT | SIGN | BINOP

definition is_letter :: "char \<Rightarrow> bool" where
  "is_letter c =
    (let n = (of_char c :: int) in (97 \<le> n \<and> n \<le> 122) \<or> (65 \<le> n \<and> n \<le> 90) \<or> n = 95)"

definition is_digit :: "char \<Rightarrow> bool" where
  "is_digit c = (let n = (of_char c :: int) in 48 \<le> n \<and> n \<le> 57)"

text \<open>The reserved words of Python 3 other than the five the fragment has statements for.\<close>

definition other_keywords :: "string list" where
  "other_keywords =
    [''False'', ''None'', ''True'', ''and'', ''assert'', ''async'', ''await'', ''break'',
     ''class'', ''continue'', ''del'', ''elif'', ''else'', ''except'', ''finally'', ''for'',
     ''from'', ''global'', ''if'', ''in'', ''is'', ''nonlocal'', ''not'', ''or'', ''pass'',
     ''raise'', ''try'', ''while'', ''with'', ''yield'']"

definition word_token :: "string \<Rightarrow> token" where
  "word_token w =
    (if w = ''import'' then IMPORT
     else if w = ''as'' then AS
     else if w = ''def'' then DEF
     else if w = ''return'' then RETURN
     else if w = ''lambda'' then LAMBDA
     else if w \<in> set other_keywords then KEYWORD
     else NAME)"

text \<open>
  The tokens of a line are read by an automaton. Its state says what is being read: a
  word, a number (and whether its last character was an underscore; a number that starts
  with \<^verbatim>\<open>0\<close> is the single digit), a string with its quote (and whether the last
  character was a backslash), the place right after a string, after a \<^verbatim>\<open>*\<close> or
  after a \<^verbatim>\<open>=\<close>, a comment, or the end of the line after its newline.
\<close>

datatype lexstate =
    Idle | Word string | Zero | Num bool | Quote char bool | Closed | Star | Eq | Comment
  | End

text \<open>\<open>leave\<close>: the token that ends with the line; an open string or a number that ends
  in an underscore is an error.\<close>

fun leave :: "lexstate \<Rightarrow> token list option" where
  "leave Idle = Some []"
| "leave (Word w) = Some [word_token w]"
| "leave Zero = Some [NUMBER]"
| "leave (Num underscore) = (if underscore then None else Some [NUMBER])"
| "leave (Quote q escaped) = None"
| "leave Closed = Some []"
| "leave Star = Some [BINOP]"
| "leave Eq = Some [EQUAL]"
| "leave Comment = Some []"
| "leave End = Some []"

text \<open>\<open>idle c\<close>: the character \<open>c\<close> where a new token may start.\<close>

definition idle :: "char \<Rightarrow> (token list \<times> lexstate) option" where
  "idle c =
    (if c = CHR '' '' then Some ([], Idle)
     else if c = CHR 0x0A then Some ([], End)
     else if is_letter c then Some ([], Word [c])
     else if c = CHR ''0'' then Some ([], Zero)
     else if is_digit c then Some ([], Num False)
     else if c = CHR 0x22 \<or> c = CHR 0x27 then Some ([], Quote c False)
     else if c = CHR ''#'' then Some ([], Comment)
     else if c = CHR ''*'' then Some ([], Star)
     else if c = CHR ''='' then Some ([], Eq)
     else if c = CHR ''('' then Some ([LPAR], Idle)
     else if c = CHR '')'' then Some ([RPAR], Idle)
     else if c = CHR ''['' then Some ([LSQB], Idle)
     else if c = CHR '']'' then Some ([RSQB], Idle)
     else if c = CHR ''{'' then Some ([LBRACE], Idle)
     else if c = CHR ''}'' then Some ([RBRACE], Idle)
     else if c = CHR '','' then Some ([COMMA], Idle)
     else if c = CHR '':'' then Some ([COLON], Idle)
     else if c = CHR ''.'' then Some ([DOT], Idle)
     else if c = CHR ''@'' then Some ([AT], Idle)
     else if c = CHR ''+'' \<or> c = CHR ''-'' then Some ([SIGN], Idle)
     else if c = CHR ''/'' \<or> c = CHR ''%'' \<or> c = CHR ''<'' then Some ([BINOP], Idle)
     else None)"

definition emit :: "token \<Rightarrow> (token list \<times> lexstate) option \<Rightarrow> (token list \<times> lexstate) option" where
  "emit t r = map_option (\<lambda>(out, st). (t # out, st)) r"

fun lex_step :: "lexstate \<Rightarrow> char \<Rightarrow> (token list \<times> lexstate) option" where
  "lex_step Idle c = idle c"
| "lex_step (Word w) c =
    (if is_letter c \<or> is_digit c then Some ([], Word (w @ [c]))
     else emit (word_token w) (idle c))"
| "lex_step Zero c =
    (if is_digit c \<or> is_letter c \<or> c = CHR ''.'' then None else emit NUMBER (idle c))"
| "lex_step (Num underscore) c =
    (if is_digit c then Some ([], Num False)
     else if c = CHR ''_'' then (if underscore then None else Some ([], Num True))
     else if underscore \<or> is_letter c \<or> c = CHR ''.'' then None
     else emit NUMBER (idle c))"
| "lex_step (Quote q escaped) c =
    (if c = CHR 0x0A then None
     else if escaped then Some ([], Quote q False)
     else if c = CHR 0x5C then Some ([], Quote q True)
     else if c = q then Some ([STRING], Closed)
     else Some ([], Quote q False))"
| "lex_step Closed c = (if c = CHR 0x22 \<or> c = CHR 0x27 then None else idle c)"
| "lex_step Star c = (if c = CHR ''*'' then Some ([BINOP], Idle) else emit BINOP (idle c))"
| "lex_step Eq c = (if c = CHR ''='' then Some ([BINOP], Idle) else emit EQUAL (idle c))"
| "lex_step Comment c = (if c = CHR 0x0A then Some ([], End) else Some ([], Comment))"
| "lex_step End c = None"

fun lex :: "lexstate \<Rightarrow> string \<Rightarrow> token list option" where
  "lex st [] = leave st"
| "lex st (c # cs) =
    (case lex_step st c of
       None \<Rightarrow> None
     | Some (out, st') \<Rightarrow> map_option (\<lambda>ts. out @ ts) (lex st' cs))"

definition py_tokens :: "string \<Rightarrow> token list option" where
  "py_tokens line = lex Idle line"

text \<open>
  Logical lines. The indentation of a line is the number of its leading spaces (a tab is
  no token, so a line with one is rejected). A line without tokens is skipped. While a
  bracket is open, the next physical line continues the logical line.
\<close>

definition indent_of :: "string \<Rightarrow> nat" where
  "indent_of line = length (takeWhile (\<lambda>c. c = CHR '' '') line)"

fun depth_after :: "nat \<Rightarrow> token list \<Rightarrow> nat" where
  "depth_after d [] = d"
| "depth_after d (t # ts) =
    (if t = LPAR \<or> t = LSQB \<or> t = LBRACE then depth_after (d + 1) ts
     else if t = RPAR \<or> t = RSQB \<or> t = RBRACE then depth_after (d - 1) ts
     else depth_after d ts)"

type_synonym logical_line = "nat \<times> token list"

fun logical_lines :: "logical_line option \<Rightarrow> nat \<Rightarrow> string list \<Rightarrow> logical_line list option" where
  "logical_lines None d [] = Some []"
| "logical_lines (Some p) d [] = None"
| "logical_lines pending d (l # ls) =
    (case py_tokens l of
       None \<Rightarrow> None
     | Some ts \<Rightarrow>
        (case pending of
           None \<Rightarrow>
             if ts = [] then logical_lines None 0 ls
             else if depth_after 0 ts = 0
               then map_option (\<lambda>r. (indent_of l, ts) # r) (logical_lines None 0 ls)
               else logical_lines (Some (indent_of l, ts)) (depth_after 0 ts) ls
         | Some (i, ps) \<Rightarrow>
             if depth_after d ts = 0
               then map_option (\<lambda>r. (i, ps @ ts) # r) (logical_lines None 0 ls)
               else logical_lines (Some (i, ps @ ts)) (depth_after d ts) ls))"

text \<open>
  Expressions. \<open>after p ts\<close> takes the tokens \<open>p\<close> from the front of \<open>ts\<close>. \<open>parse\<close>
  recognises one phrase at the front of the tokens and gives the tokens that remain after
  it, or \<open>None\<close>. Its first argument bounds the depth of the recursion: with too small a
  bound a source is rejected, never accepted. The phrases are

  \<^item> \<open>Expr\<close>: a lambda or an operator expression;
  \<^item> \<open>Operand\<close>: signs, an atom and its trailers; \<open>Operands\<close>: the operators and
    operands that follow;
  \<^item> \<open>Atom\<close>: a name, a number, a string, a parenthesised expression or tuple, a list
    or a dictionary display;
  \<^item> \<open>Trailers\<close>: calls, subscripts and attribute references;
  \<^item> \<open>Items close\<close>: expressions separated by commas, up to the closing token;
  \<^item> \<open>Entries\<close>: \<open>key: value\<close> entries up to the closing brace;
  \<^item> \<open>Args\<close>: the arguments of a call up to the closing parenthesis, positional ones
    and then at most one keyword argument;
  \<^item> \<open>Slice\<close>: an index or a slice \<open>[lower]:[upper]\<close>;
  \<^item> \<open>Names\<close>: names separated by commas; \<open>Dotted\<close>: the \<open>.name\<close> parts of a dotted
    name.
\<close>

fun after :: "token list \<Rightarrow> token list \<Rightarrow> token list option" where
  "after [] ts = Some ts"
| "after (p # ps) [] = None"
| "after (p # ps) (t # ts) = (if p = t then after ps ts else None)"

datatype phrase =
    Expr | Operand | Operands | Atom | Trailers | Items token | Entries | Args | Slice
  | Names | Dotted

primrec parse :: "nat \<Rightarrow> phrase \<Rightarrow> token list \<Rightarrow> token list option" where
  "parse 0 ph ts = None"
| "parse (Suc n) ph ts =
    (case ph of
       Expr \<Rightarrow>
        (case after [LAMBDA] ts of
           Some r \<Rightarrow>
            (case after [COLON] r of
               Some body \<Rightarrow> parse n Expr body
             | None \<Rightarrow> Option.bind (Option.bind (parse n Names r) (after [COLON])) (parse n Expr))
         | None \<Rightarrow> Option.bind (parse n Operand ts) (parse n Operands))
     | Operand \<Rightarrow>
        (case after [SIGN] ts of
           Some r \<Rightarrow> parse n Operand r
         | None \<Rightarrow> Option.bind (parse n Atom ts) (parse n Trailers))
     | Operands \<Rightarrow>
        (case after [BINOP] ts of
           Some r \<Rightarrow> Option.bind (parse n Operand r) (parse n Operands)
         | None \<Rightarrow>
            (case after [SIGN] ts of
               Some r \<Rightarrow> Option.bind (parse n Operand r) (parse n Operands)
             | None \<Rightarrow> Some ts))
     | Atom \<Rightarrow>
        (case ts of
           [] \<Rightarrow> None
         | t # r \<Rightarrow>
            if t = NAME \<or> t = NUMBER \<or> t = STRING then Some r
            else if t = LPAR then parse n (Items RPAR) r
            else if t = LSQB then parse n (Items RSQB) r
            else if t = LBRACE then parse n Entries r
            else None)
     | Trailers \<Rightarrow>
        (case after [DOT, NAME] ts of
           Some r \<Rightarrow> parse n Trailers r
         | None \<Rightarrow>
            (case after [LPAR] ts of
               Some r \<Rightarrow> Option.bind (parse n Args r) (parse n Trailers)
             | None \<Rightarrow>
                (case after [LSQB] ts of
                   Some r \<Rightarrow>
                    Option.bind (Option.bind (parse n Slice r) (after [RSQB])) (parse n Trailers)
                 | None \<Rightarrow> Some ts)))
     | Items close \<Rightarrow>
        (case after [close] ts of
           Some r \<Rightarrow> Some r
         | None \<Rightarrow>
            (case parse n Expr ts of
               None \<Rightarrow> None
             | Some r \<Rightarrow>
                (case after [COMMA] r of
                   Some r' \<Rightarrow> parse n (Items close) r'
                 | None \<Rightarrow> after [close] r)))
     | Entries \<Rightarrow>
        (case after [RBRACE] ts of
           Some r \<Rightarrow> Some r
         | None \<Rightarrow>
            (case Option.bind (Option.bind (parse n Expr ts) (after [COLON])) (parse n Expr) of
               None \<Rightarrow> None
             | Some r \<Rightarrow>
                (case after [COMMA] r of
                   Some r' \<Rightarrow> parse n Entries r'
                 | None \<Rightarrow> after [RBRACE] r)))
     | Args \<Rightarrow>
        (case after [RPAR] ts of
           Some r \<Rightarrow> Some r
         | None \<Rightarrow>
            (case after [NAME, EQUAL] ts of
               Some r \<Rightarrow>
                (case parse n Expr r of
                   None \<Rightarrow> None
                 | Some r' \<Rightarrow>
                    (case after [COMMA] r' of
                       Some r'' \<Rightarrow> after [RPAR] r''
                     | None \<Rightarrow> after [RPAR] r'))
             | None \<Rightarrow>
                (case parse n Expr ts of
                   None \<Rightarrow> None
                 | Some r \<Rightarrow>
                    (case after [COMMA] r of
                       Some r' \<Rightarrow> parse n Args r'
                     | None \<Rightarrow> after [RPAR] r))))
     | Slice \<Rightarrow>
        (case after [COLON] ts of
           Some r \<Rightarrow> (if after [RSQB] r = None then parse n Expr r else Some r)
         | None \<Rightarrow>
            (case parse n Expr ts of
               None \<Rightarrow> None
             | Some r \<Rightarrow>
                (case after [COLON] r of
                   Some r' \<Rightarrow> (if after [RSQB] r' = None then parse n Expr r' else Some r')
                 | None \<Rightarrow> Some r)))
     | Names \<Rightarrow>
        (case after [NAME] ts of
           None \<Rightarrow> None
         | Some r \<Rightarrow>
            (case after [COMMA] r of
               Some r' \<Rightarrow> parse n Names r'
             | None \<Rightarrow> Some r))
     | Dotted \<Rightarrow>
        (case after [DOT, NAME] ts of
           Some r \<Rightarrow> parse n Dotted r
         | None \<Rightarrow> Some ts))"

text \<open>
  Statements. The bound of the recursion for the phrases of one logical line: no phrase
  of a line of \<open>k\<close> tokens nests or repeats more than \<open>k\<close> times, and one round of the
  recursion from expression to expression takes four steps.
\<close>

definition fuel :: "token list \<Rightarrow> nat" where
  "fuel ts = 4 * length ts + 4"

definition phrase_line :: "phrase \<Rightarrow> token list \<Rightarrow> bool" where
  "phrase_line ph ts = (parse (fuel ts) ph ts = Some [])"

text \<open>
  A simple statement is an import of one module, a return (inside a function only), the
  assignment of an expression to a name, or an expression.
\<close>

definition simple_stmt :: "bool \<Rightarrow> token list \<Rightarrow> bool" where
  "simple_stmt inner ts =
    (case after [IMPORT, NAME] ts of
       Some r \<Rightarrow>
        (case parse (fuel ts) Dotted r of
           None \<Rightarrow> False
         | Some r' \<Rightarrow> r' = [] \<or> r' = [AS, NAME])
     | None \<Rightarrow>
        (case after [RETURN] ts of
           Some r \<Rightarrow> inner \<and> (r = [] \<or> phrase_line Expr r)
         | None \<Rightarrow>
            (case after [NAME, EQUAL] ts of
               Some r \<Rightarrow> phrase_line Expr r
             | None \<Rightarrow> phrase_line Expr ts)))"

text \<open>
  The header of a function definition, \<^verbatim>\<open>def name(parameters):\<close>, and a decorator
  line, \<^verbatim>\<open>@dotted.name\<close> with an optional argument list.
\<close>

definition def_header :: "token list \<Rightarrow> bool" where
  "def_header ts =
    (case after [DEF, NAME, LPAR] ts of
       None \<Rightarrow> False
     | Some r \<Rightarrow>
        r = [RPAR, COLON] \<or>
        Option.bind (parse (fuel ts) Names r) (after [RPAR, COLON]) = Some [])"

definition decorator :: "token list \<Rightarrow> bool" where
  "decorator ts =
    (case after [AT, NAME] ts of
       None \<Rightarrow> False
     | Some r \<Rightarrow>
        (case parse (fuel ts) Dotted r of
           None \<Rightarrow> False
         | Some r' \<Rightarrow>
            r' = [] \<or>
            (case after [LPAR] r' of
               None \<Rightarrow> False
             | Some r'' \<Rightarrow> parse (fuel ts) Args r'' = Some [])))"

text \<open>
  A block at indentation \<open>i\<close> is a sequence of statements that all start at column \<open>i\<close>;
  it ends before the first line that starts to the left of \<open>i\<close>, and a line that starts to
  the right of \<open>i\<close> is an error. A decorator is followed, at the same indentation, by
  another decorator or by a function definition. The header of a function definition is
  followed by its body, a block at a deeper indentation. \<open>block\<close> gives the lines after
  the block; its first argument bounds the recursion.
\<close>

primrec block :: "nat \<Rightarrow> nat \<Rightarrow> bool \<Rightarrow> logical_line list \<Rightarrow> logical_line list option" where
  "block 0 i inner ls = None"
| "block (Suc n) i inner ls =
    (case ls of
       [] \<Rightarrow> Some []
     | (j, ts) # rest \<Rightarrow>
        if j < i then Some ls
        else if i < j then None
        else if decorator ts then
          (case rest of
             [] \<Rightarrow> None
           | (j', ts') # rest' \<Rightarrow>
              if j' = i \<and> (after [AT] ts' \<noteq> None \<or> after [DEF] ts' \<noteq> None)
              then block n i inner rest else None)
        else if def_header ts then
          (case rest of
             [] \<Rightarrow> None
           | (j', ts') # rest' \<Rightarrow>
              if i < j' then Option.bind (block n j' True rest) (block n i inner) else None)
        else if simple_stmt inner ts then block n i inner rest
        else None)"

text \<open>
  A source, given by its lines, is a Python module when its logical lines form one block
  at column 0 that takes all of them.
\<close>

definition py_module :: "string list \<Rightarrow> bool" where
  "py_module ls =
    (case logical_lines None 0 ls of
       None \<Rightarrow> False
     | Some lls \<Rightarrow> block (2 * length lls + 1) 0 False lls = Some [])"

section \<open>The cells, one by one\<close>

lemmas cell_defs =
  cell_0_def cell_1_def cell_2_def cell_3_def cell_4_def cell_5_def
  cell_6_def cell_7_def cell_8_def cell_9_def cell_10_def cell_11_def
  cell_12_def cell_13_def cell_14_def cell_15_def cell_16_def cell_17_def
  cell_18_def cell_19_def cell_20_def cell_21_def cell_22_def cell_23_def
  cell_24_def cell_25_def cell_26_def cell_27_def cell_28_def cell_29_def
  cell_30_def cell_31_def cell_32_def cell_33_def cell_34_def cell_35_def
  cell_36_def cell_37_def cell_38_def cell_39_def cell_40_def cell_41_def
  cell_42_def cell_43_def cell_44_def cell_45_def cell_46_def cell_47_def
  cell_48_def cell_49_def cell_50_def cell_51_def cell_52_def

lemma nb_cells_notebook: "nb_cells bodo_getting_started = cells"
  by (simp add: nb_cells_def bodo_getting_started_def)

lemma cell_type_of_cell:
  "cell_type cell_0 = ''markdown''"
  "cell_type cell_1 = ''markdown''"
  "cell_type cell_2 = ''code''"
  "cell_type cell_3 = ''markdown''"
  "cell_type cell_4 = ''markdown''"
  "cell_type cell_5 = ''code''"
  "cell_type cell_6 = ''markdown''"
  "cell_type cell_7 = ''code''"
  "cell_type cell_8 = ''markdown''"
  "cell_type cell_9 = ''code''"
  "cell_type cell_10 = ''markdown''"
  "cell_type cell_11 = ''markdown''"
  "cell_type cell_12 = ''code''"
  "cell_type cell_13 = ''markdown''"
  "cell_type cell_14 = ''code''"
  "cell_type cell_15 = ''markdown''"
  "cell_type cell_16 = ''code''"
  "cell_type cell_17 = ''markdown''"
  "cell_type cell_18 = ''markdown''"
  "cell_type cell_19 = ''markdown''"
  "cell_type cell_20 = ''code''"
  "cell_type cell_21 = ''markdown''"
  "cell_type cell_22 = ''code''"
  "cell_type cell_23 = ''markdown''"
  "cell_type cell_24 = ''markdown''"
  "cell_type cell_25 = ''code''"
  "cell_type cell_26 = ''markdown''"
  "cell_type cell_27 = ''markdown''"
  "cell_type cell_28 = ''code''"
  "cell_type cell_29 = ''markdown''"
  "cell_type cell_30 = ''markdown''"
  "cell_type cell_31 = ''code''"
  "cell_type cell_32 = ''markdown''"
  "cell_type cell_33 = ''code''"
  "cell_type cell_34 = ''markdown''"
  "cell_type cell_35 = ''markdown''"
  "cell_type cell_36 = ''code''"
  "cell_type cell_37 = ''markdown''"
  "cell_type cell_38 = ''code''"
  "cell_type cell_39 = ''markdown''"
  "cell_type cell_40 = ''code''"
  "cell_type cell_41 = ''markdown''"
  "cell_type cell_42 = ''code''"
  "cell_type cell_43 = ''markdown''"
  "cell_type cell_44 = ''code''"
  "cell_type cell_45 = ''markdown''"
  "cell_type cell_46 = ''code''"
  "cell_type cell_47 = ''markdown''"
  "cell_type cell_48 = ''code''"
  "cell_type cell_49 = ''markdown''"
  "cell_type cell_50 = ''code''"
  "cell_type cell_51 = ''markdown''"
  "cell_type cell_52 = ''markdown''"
  by code_simp+

lemma keys_of_cell:
  "keys cell_0 = [''cell_type'', ''metadata'', ''source'']"
  "keys cell_1 = [''cell_type'', ''metadata'', ''source'']"
  "keys cell_2 = [''cell_type'', ''execution_count'', ''metadata'', ''outputs'', ''source'']"
  "keys cell_3 = [''cell_type'', ''metadata'', ''source'']"
  "keys cell_4 = [''cell_type'', ''metadata'', ''source'']"
  "keys cell_5 = [''cell_type'', ''execution_count'', ''metadata'', ''outputs'', ''source'']"
  "keys cell_6 = [''cell_type'', ''metadata'', ''source'']"
  "keys cell_7 = [''cell_type'', ''execution_count'', ''metadata'', ''outputs'', ''source'']"
  "keys cell_8 = [''cell_type'', ''metadata'', ''source'']"
  "keys cell_9 = [''cell_type'', ''execution_count'', ''metadata'', ''outputs'', ''source'']"
  "keys cell_10 = [''cell_type'', ''metadata'', ''source'']"
  "keys cell_11 = [''cell_type'', ''metadata'', ''source'']"
  "keys cell_12 = [''cell_type'', ''execution_count'', ''metadata'', ''outputs'', ''source'']"
  "keys cell_13 = [''cell_type'', ''metadata'', ''source'']"
  "keys cell_14 = [''cell_type'', ''execution_count'', ''metadata'', ''outputs'', ''source'']"
  "keys cell_15 = [''cell_type'', ''metadata'', ''source'']"
  "keys cell_16 = [''cell_type'', ''execution_count'', ''metadata'', ''outputs'', ''source'']"
  "keys cell_17 = [''cell_type'', ''metadata'', ''source'']"
  "keys cell_18 = [''cell_type'', ''metadata'', ''source'']"
  "keys cell_19 = [''cell_type'', ''metadata'', ''source'']"
  "keys cell_20 = [''cell_type'', ''execution_count'', ''metadata'', ''outputs'', ''source'']"
  "keys cell_21 = [''cell_type'', ''metadata'', ''source'']"
  "keys cell_22 = [''cell_type'', ''execution_count'', ''metadata'', ''outputs'', ''source'']"
  "keys cell_23 = [''cell_type'', ''metadata'', ''source'']"
  "keys cell_24 = [''cell_type'', ''metadata'', ''source'']"
  "keys cell_25 = [''cell_type'', ''execution_count'', ''metadata'', ''outputs'', ''source'']"
  "keys cell_26 = [''cell_type'', ''metadata'', ''source'']"
  "keys cell_27 = [''cell_type'', ''metadata'', ''source'']"
  "keys cell_28 = [''cell_type'', ''execution_count'', ''metadata'', ''outputs'', ''source'']"
  "keys cell_29 = [''cell_type'', ''metadata'', ''source'']"
  "keys cell_30 = [''cell_type'', ''metadata'', ''source'']"
  "keys cell_31 = [''cell_type'', ''execution_count'', ''metadata'', ''outputs'', ''source'']"
  "keys cell_32 = [''cell_type'', ''metadata'', ''source'']"
  "keys cell_33 = [''cell_type'', ''execution_count'', ''metadata'', ''outputs'', ''source'']"
  "keys cell_34 = [''cell_type'', ''metadata'', ''source'']"
  "keys cell_35 = [''cell_type'', ''metadata'', ''source'']"
  "keys cell_36 = [''cell_type'', ''execution_count'', ''metadata'', ''outputs'', ''source'']"
  "keys cell_37 = [''cell_type'', ''metadata'', ''source'']"
  "keys cell_38 = [''cell_type'', ''execution_count'', ''metadata'', ''outputs'', ''source'']"
  "keys cell_39 = [''cell_type'', ''metadata'', ''source'']"
  "keys cell_40 = [''cell_type'', ''execution_count'', ''metadata'', ''outputs'', ''source'']"
  "keys cell_41 = [''cell_type'', ''metadata'', ''source'']"
  "keys cell_42 = [''cell_type'', ''execution_count'', ''metadata'', ''outputs'', ''source'']"
  "keys cell_43 = [''cell_type'', ''metadata'', ''source'']"
  "keys cell_44 = [''cell_type'', ''execution_count'', ''metadata'', ''outputs'', ''source'']"
  "keys cell_45 = [''cell_type'', ''metadata'', ''source'']"
  "keys cell_46 = [''cell_type'', ''execution_count'', ''metadata'', ''outputs'', ''source'']"
  "keys cell_47 = [''cell_type'', ''metadata'', ''source'']"
  "keys cell_48 = [''cell_type'', ''execution_count'', ''metadata'', ''outputs'', ''source'']"
  "keys cell_49 = [''cell_type'', ''metadata'', ''source'']"
  "keys cell_50 = [''cell_type'', ''execution_count'', ''metadata'', ''outputs'', ''source'']"
  "keys cell_51 = [''cell_type'', ''metadata'', ''source'']"
  "keys cell_52 = [''cell_type'', ''metadata'', ''source'']"
  by code_simp+

lemma code_cells_notebook:
  "code_cells bodo_getting_started =
    [cell_2, cell_5, cell_7, cell_9, cell_12, cell_14, cell_16, cell_20,
     cell_22, cell_25, cell_28, cell_31, cell_33, cell_36, cell_38, cell_40,
     cell_42, cell_44, cell_46, cell_48, cell_50]"
  by (simp add: code_cells_def nb_cells_notebook cells_def cell_type_of_cell)

lemma markdown_cells_notebook:
  "markdown_cells bodo_getting_started =
    [cell_0, cell_1, cell_3, cell_4, cell_6, cell_8, cell_10, cell_11,
     cell_13, cell_15, cell_17, cell_18, cell_19, cell_21, cell_23, cell_24,
     cell_26, cell_27, cell_29, cell_30, cell_32, cell_34, cell_35, cell_37,
     cell_39, cell_41, cell_43, cell_45, cell_47, cell_49, cell_51, cell_52]"
  by (simp add: markdown_cells_def nb_cells_notebook cells_def cell_type_of_cell)

lemma output_types_of_cell:
  "map output_type (outputs cell_2) = []"
  "map output_type (outputs cell_5) = [''stream'']"
  "map output_type (outputs cell_7) = [''stream'']"
  "map output_type (outputs cell_9) = [''stream'']"
  "map output_type (outputs cell_12) = [''stream'']"
  "map output_type (outputs cell_14) = [''stream'']"
  "map output_type (outputs cell_16) = [''stream'']"
  "map output_type (outputs cell_20) = []"
  "map output_type (outputs cell_22) = [''stream'']"
  "map output_type (outputs cell_25) = [''stream'', ''stream'']"
  "map output_type (outputs cell_28) = [''stream'']"
  "map output_type (outputs cell_31) = [''stream'']"
  "map output_type (outputs cell_33) = [''stream'']"
  "map output_type (outputs cell_36) = [''stream'']"
  "map output_type (outputs cell_38) = [''stream'']"
  "map output_type (outputs cell_40) = [''stream'']"
  "map output_type (outputs cell_42) = [''stream'']"
  "map output_type (outputs cell_44) = [''stream'']"
  "map output_type (outputs cell_46) = [''stream'']"
  "map output_type (outputs cell_48) = [''error'']"
  "map output_type (outputs cell_50) = [''stream'', ''execute_result'']"
  by code_simp+

lemma execution_count_of_cell:
  "execution_count cell_2 = Some 1"
  "execution_count cell_5 = Some 2"
  "execution_count cell_7 = Some 3"
  "execution_count cell_9 = Some 4"
  "execution_count cell_12 = Some 5"
  "execution_count cell_14 = Some 6"
  "execution_count cell_16 = Some 7"
  "execution_count cell_20 = Some 8"
  "execution_count cell_22 = Some 9"
  "execution_count cell_25 = Some 10"
  "execution_count cell_28 = Some 11"
  "execution_count cell_31 = Some 14"
  "execution_count cell_33 = Some 17"
  "execution_count cell_36 = Some 16"
  "execution_count cell_38 = Some 19"
  "execution_count cell_40 = Some 17"
  "execution_count cell_42 = Some 20"
  "execution_count cell_44 = Some 21"
  "execution_count cell_46 = Some 22"
  "execution_count cell_48 = Some 25"
  "execution_count cell_50 = Some 26"
  by code_simp+

lemma markdown_cell_outputs:
  "outputs cell_0 = []"
  "outputs cell_1 = []"
  "outputs cell_3 = []"
  "outputs cell_4 = []"
  "outputs cell_6 = []"
  "outputs cell_8 = []"
  "outputs cell_10 = []"
  "outputs cell_11 = []"
  "outputs cell_13 = []"
  "outputs cell_15 = []"
  "outputs cell_17 = []"
  "outputs cell_18 = []"
  "outputs cell_19 = []"
  "outputs cell_21 = []"
  "outputs cell_23 = []"
  "outputs cell_24 = []"
  "outputs cell_26 = []"
  "outputs cell_27 = []"
  "outputs cell_29 = []"
  "outputs cell_30 = []"
  "outputs cell_32 = []"
  "outputs cell_34 = []"
  "outputs cell_35 = []"
  "outputs cell_37 = []"
  "outputs cell_39 = []"
  "outputs cell_41 = []"
  "outputs cell_43 = []"
  "outputs cell_45 = []"
  "outputs cell_47 = []"
  "outputs cell_49 = []"
  "outputs cell_51 = []"
  "outputs cell_52 = []"
  by code_simp+

lemma outputs_empty_iff: "(outputs c = []) = (map output_type (outputs c) = [])"
  by simp

lemma text_only_cells:
  "text_only_cell cell_0"
  "text_only_cell cell_1"
  "text_only_cell cell_2"
  "text_only_cell cell_3"
  "text_only_cell cell_4"
  "text_only_cell cell_5"
  "text_only_cell cell_6"
  "text_only_cell cell_7"
  "text_only_cell cell_8"
  "text_only_cell cell_9"
  "text_only_cell cell_10"
  "text_only_cell cell_11"
  "text_only_cell cell_12"
  "text_only_cell cell_13"
  "text_only_cell cell_14"
  "text_only_cell cell_15"
  "text_only_cell cell_16"
  "text_only_cell cell_17"
  "text_only_cell cell_18"
  "text_only_cell cell_19"
  "text_only_cell cell_20"
  "text_only_cell cell_21"
  "text_only_cell cell_22"
  "text_only_cell cell_23"
  "text_only_cell cell_24"
  "text_only_cell cell_25"
  "text_only_cell cell_26"
  "text_only_cell cell_27"
  "text_only_cell cell_28"
  "text_only_cell cell_29"
  "text_only_cell cell_30"
  "text_only_cell cell_31"
  "text_only_cell cell_32"
  "text_only_cell cell_33"
  "text_only_cell cell_34"
  "text_only_cell cell_35"
  "text_only_cell cell_36"
  "text_only_cell cell_37"
  "text_only_cell cell_38"
  "text_only_cell cell_39"
  "text_only_cell cell_40"
  "text_only_cell cell_41"
  "text_only_cell cell_42"
  "text_only_cell cell_43"
  "text_only_cell cell_44"
  "text_only_cell cell_45"
  "text_only_cell cell_46"
  "text_only_cell cell_47"
  "text_only_cell cell_48"
  "text_only_cell cell_49"
  "text_only_cell cell_50"
  "text_only_cell cell_51"
  "text_only_cell cell_52"
  by code_simp+

lemma no_exception_handling:
  "\<not> handles_exceptions cell_2"
  "\<not> handles_exceptions cell_5"
  "\<not> handles_exceptions cell_7"
  "\<not> handles_exceptions cell_9"
  "\<not> handles_exceptions cell_12"
  "\<not> handles_exceptions cell_14"
  "\<not> handles_exceptions cell_16"
  "\<not> handles_exceptions cell_20"
  "\<not> handles_exceptions cell_22"
  "\<not> handles_exceptions cell_25"
  "\<not> handles_exceptions cell_28"
  "\<not> handles_exceptions cell_31"
  "\<not> handles_exceptions cell_33"
  "\<not> handles_exceptions cell_36"
  "\<not> handles_exceptions cell_38"
  "\<not> handles_exceptions cell_40"
  "\<not> handles_exceptions cell_42"
  "\<not> handles_exceptions cell_44"
  "\<not> handles_exceptions cell_46"
  "\<not> handles_exceptions cell_48"
  "\<not> handles_exceptions cell_50"
  by code_simp+

lemma outputs_empty_of_cell:
  "outputs cell_2 = []"
  "outputs cell_5 \<noteq> []"
  "outputs cell_7 \<noteq> []"
  "outputs cell_9 \<noteq> []"
  "outputs cell_12 \<noteq> []"
  "outputs cell_14 \<noteq> []"
  "outputs cell_16 \<noteq> []"
  "outputs cell_20 = []"
  "outputs cell_22 \<noteq> []"
  "outputs cell_25 \<noteq> []"
  "outputs cell_28 \<noteq> []"
  "outputs cell_31 \<noteq> []"
  "outputs cell_33 \<noteq> []"
  "outputs cell_36 \<noteq> []"
  "outputs cell_38 \<noteq> []"
  "outputs cell_40 \<noteq> []"
  "outputs cell_42 \<noteq> []"
  "outputs cell_44 \<noteq> []"
  "outputs cell_46 \<noteq> []"
  "outputs cell_48 \<noteq> []"
  "outputs cell_50 \<noteq> []"
  by code_simp+

lemma nth_cells:
  "cells ! 0 = cell_0"
  "cells ! 1 = cell_1"
  "cells ! 2 = cell_2"
  "cells ! 3 = cell_3"
  "cells ! 4 = cell_4"
  "cells ! 5 = cell_5"
  "cells ! 6 = cell_6"
  "cells ! 7 = cell_7"
  "cells ! 8 = cell_8"
  "cells ! 9 = cell_9"
  "cells ! 10 = cell_10"
  "cells ! 11 = cell_11"
  "cells ! 12 = cell_12"
  "cells ! 13 = cell_13"
  "cells ! 14 = cell_14"
  "cells ! 15 = cell_15"
  "cells ! 16 = cell_16"
  "cells ! 17 = cell_17"
  "cells ! 18 = cell_18"
  "cells ! 19 = cell_19"
  "cells ! 20 = cell_20"
  "cells ! 21 = cell_21"
  "cells ! 22 = cell_22"
  "cells ! 23 = cell_23"
  "cells ! 24 = cell_24"
  "cells ! 25 = cell_25"
  "cells ! 26 = cell_26"
  "cells ! 27 = cell_27"
  "cells ! 28 = cell_28"
  "cells ! 29 = cell_29"
  "cells ! 30 = cell_30"
  "cells ! 31 = cell_31"
  "cells ! 32 = cell_32"
  "cells ! 33 = cell_33"
  "cells ! 34 = cell_34"
  "cells ! 35 = cell_35"
  "cells ! 36 = cell_36"
  "cells ! 37 = cell_37"
  "cells ! 38 = cell_38"
  "cells ! 39 = cell_39"
  "cells ! 40 = cell_40"
  "cells ! 41 = cell_41"
  "cells ! 42 = cell_42"
  "cells ! 43 = cell_43"
  "cells ! 44 = cell_44"
  "cells ! 45 = cell_45"
  "cells ! 46 = cell_46"
  "cells ! 47 = cell_47"
  "cells ! 48 = cell_48"
  "cells ! 49 = cell_49"
  "cells ! 50 = cell_50"
  "cells ! 51 = cell_51"
  "cells ! 52 = cell_52"
  by (simp_all add: cells_def)

lemma length_cells: "length cells = 53"
  by (simp add: cells_def)

lemma has_error_of_cell:
  "list_ex is_error (outputs cell_2) = False"
  "list_ex is_error (outputs cell_5) = False"
  "list_ex is_error (outputs cell_7) = False"
  "list_ex is_error (outputs cell_9) = False"
  "list_ex is_error (outputs cell_12) = False"
  "list_ex is_error (outputs cell_14) = False"
  "list_ex is_error (outputs cell_16) = False"
  "list_ex is_error (outputs cell_20) = False"
  "list_ex is_error (outputs cell_22) = False"
  "list_ex is_error (outputs cell_25) = False"
  "list_ex is_error (outputs cell_28) = False"
  "list_ex is_error (outputs cell_31) = False"
  "list_ex is_error (outputs cell_33) = False"
  "list_ex is_error (outputs cell_36) = False"
  "list_ex is_error (outputs cell_38) = False"
  "list_ex is_error (outputs cell_40) = False"
  "list_ex is_error (outputs cell_42) = False"
  "list_ex is_error (outputs cell_44) = False"
  "list_ex is_error (outputs cell_46) = False"
  "list_ex is_error (outputs cell_48) = True"
  "list_ex is_error (outputs cell_50) = False"
  by code_simp+

lemma error_outputs_of_cell:
  "filter is_error (outputs cell_2) = []"
  "filter is_error (outputs cell_5) = []"
  "filter is_error (outputs cell_7) = []"
  "filter is_error (outputs cell_9) = []"
  "filter is_error (outputs cell_12) = []"
  "filter is_error (outputs cell_14) = []"
  "filter is_error (outputs cell_16) = []"
  "filter is_error (outputs cell_20) = []"
  "filter is_error (outputs cell_22) = []"
  "filter is_error (outputs cell_25) = []"
  "filter is_error (outputs cell_28) = []"
  "filter is_error (outputs cell_31) = []"
  "filter is_error (outputs cell_33) = []"
  "filter is_error (outputs cell_36) = []"
  "filter is_error (outputs cell_38) = []"
  "filter is_error (outputs cell_40) = []"
  "filter is_error (outputs cell_42) = []"
  "filter is_error (outputs cell_44) = []"
  "filter is_error (outputs cell_46) = []"
  "filter is_error (outputs cell_50) = []"
  by code_simp+

lemma mime_types_of_cell:
  "concat (map (\<lambda>out. map fst (mime_bundle out)) (outputs cell_2)) = []"
  "concat (map (\<lambda>out. map fst (mime_bundle out)) (outputs cell_5)) = []"
  "concat (map (\<lambda>out. map fst (mime_bundle out)) (outputs cell_7)) = []"
  "concat (map (\<lambda>out. map fst (mime_bundle out)) (outputs cell_9)) = []"
  "concat (map (\<lambda>out. map fst (mime_bundle out)) (outputs cell_12)) = []"
  "concat (map (\<lambda>out. map fst (mime_bundle out)) (outputs cell_14)) = []"
  "concat (map (\<lambda>out. map fst (mime_bundle out)) (outputs cell_16)) = []"
  "concat (map (\<lambda>out. map fst (mime_bundle out)) (outputs cell_20)) = []"
  "concat (map (\<lambda>out. map fst (mime_bundle out)) (outputs cell_22)) = []"
  "concat (map (\<lambda>out. map fst (mime_bundle out)) (outputs cell_25)) = []"
  "concat (map (\<lambda>out. map fst (mime_bundle out)) (outputs cell_28)) = []"
  "concat (map (\<lambda>out. map fst (mime_bundle out)) (outputs cell_31)) = []"
  "concat (map (\<lambda>out. map fst (mime_bundle out)) (outputs cell_33)) = []"
  "concat (map (\<lambda>out. map fst (mime_bundle out)) (outputs cell_36)) = []"
  "concat (map (\<lambda>out. map fst (mime_bundle out)) (outputs cell_38)) = []"
  "concat (map (\<lambda>out. map fst (mime_bundle out)) (outputs cell_40)) = []"
  "concat (map (\<lambda>out. map fst (mime_bundle out)) (outputs cell_42)) = []"
  "concat (map (\<lambda>out. map fst (mime_bundle out)) (outputs cell_44)) = []"
  "concat (map (\<lambda>out. map fst (mime_bundle out)) (outputs cell_46)) = []"
  "concat (map (\<lambda>out. map fst (mime_bundle out)) (outputs cell_48)) = []"
  "concat (map (\<lambda>out. map fst (mime_bundle out)) (outputs cell_50)) = [''text/html'', ''text/plain'']"
  by code_simp+

section \<open>The sequence of cells\<close>

text \<open>
  C5: every cell of the notebook has the cell type \<^verbatim>\<open>markdown\<close> or \<^verbatim>\<open>code\<close>, and
  the document is a linear sequence: it is a list of 53 cells, 32 of them markdown and 21
  code, and a cell carries nothing but its type, its (empty) metadata and its source, and
  for a code cell its execution count and its outputs. No member of a cell names another
  cell, so the only order between cells is their order in the list.
\<close>

theorem C5_cell_types:
  "list_all (\<lambda>c. cell_type c = ''markdown'' \<or> cell_type c = ''code'')
     (nb_cells bodo_getting_started)
   \<and> length (nb_cells bodo_getting_started) = 53
   \<and> length (markdown_cells bodo_getting_started) = 32
   \<and> length (code_cells bodo_getting_started) = 21
   \<and> list_all (\<lambda>c. keys c = [''cell_type'', ''metadata'', ''source''])
         (markdown_cells bodo_getting_started)
   \<and> list_all (\<lambda>c. keys c =
           [''cell_type'', ''execution_count'', ''metadata'', ''outputs'', ''source''])
         (code_cells bodo_getting_started)"
  by (simp add: code_cells_notebook markdown_cells_notebook nb_cells_notebook cells_def
      cell_type_of_cell keys_of_cell)


section \<open>Captured outputs\<close>

lemma code_cell_indices_notebook:
  "code_cell_indices bodo_getting_started =
     [2, 5, 7, 9, 12, 14, 16, 20, 22, 25, 28, 31, 33, 36, 38, 40, 42, 44, 46, 48, 50]"
  by (simp add: code_cell_indices_def nb_cells_notebook cells_def cell_type_of_cell)

text \<open>
  C2, as stated: every code cell has a non-empty list of outputs. It fails: the first
  code cell (cell 2, which sets up the cluster client) has none.
\<close>

theorem C2_counterexample:
  "\<not> list_all (\<lambda>c. outputs c \<noteq> []) (code_cells bodo_getting_started)"
  by (simp add: code_cells_notebook outputs_empty_of_cell)

text \<open>
  C2, amended: every code cell of the notebook is pre-executed (it carries an execution
  count), and every code cell but two has captured output. The two without are cell 2
  (the cluster client set-up) and cell 20 (the parallel write), whose code prints nothing.
  The outputs of the others are text streams, but for the error of cell 48 and the
  result that follows the stream of cell 50.
\<close>

theorem C2_outputs_amended:
  "code_cell_indices bodo_getting_started =
     [2, 5, 7, 9, 12, 14, 16, 20, 22, 25, 28, 31, 33, 36, 38, 40, 42, 44, 46, 48, 50]
   \<and> map execution_count (code_cells bodo_getting_started) =
     [Some 1, Some 2, Some 3, Some 4, Some 5, Some 6, Some 7, Some 8, Some 9, Some 10, Some 11,
      Some 14, Some 17, Some 16, Some 19, Some 17, Some 20, Some 21, Some 22, Some 25, Some 26]
   \<and> filter (\<lambda>i. outputs (nb_cells bodo_getting_started ! i) = [])
       (code_cell_indices bodo_getting_started) = [2, 20]
   \<and> map (\<lambda>c. map output_type (outputs c)) (code_cells bodo_getting_started) =
     [[], [''stream''], [''stream''], [''stream''], [''stream''], [''stream''],
      [''stream''], [], [''stream''], [''stream'', ''stream''], [''stream''], [''stream''],
      [''stream''], [''stream''], [''stream''], [''stream''], [''stream''], [''stream''],
      [''stream''], [''error''], [''stream'', ''execute_result'']]"
  by (simp add: code_cell_indices_notebook code_cells_notebook nb_cells_notebook nth_cells
      outputs_empty_of_cell execution_count_of_cell output_types_of_cell)

section \<open>The one error\<close>

lemma error_outputs_notebook:
  "error_outputs bodo_getting_started = filter is_error (outputs cell_48)"
  by (simp add: error_outputs_def all_outputs_def nb_cells_notebook cells_def
      markdown_cell_outputs error_outputs_of_cell)

lemma error_of_cell_48:
  "map ename (filter is_error (outputs cell_48)) = [''BodoError'']"
  "map (\<lambda>out. length (traceback out)) (filter is_error (outputs cell_48)) = [5]"
  \<open>map (starts_with
      ''groupby(): \'by\' parameter only supports a constant column label or column labels.'' \<circ>
      evalue) (filter is_error (outputs cell_48)) = [True]\<close>
  by code_simp+

lemma error_cell_indices_notebook: "error_cell_indices bodo_getting_started = [48]"
  by (simp add: error_cell_indices_def nb_cells_notebook cells_def markdown_cell_outputs
      has_error_of_cell)

text \<open>
  C3: among all captured outputs of all cells there is exactly one error output. It is a
  recorded \<^verbatim>\<open>BodoError\<close> with its traceback, the output of cell 48, and its message
  says that the external library's \<^verbatim>\<open>groupby\<close> takes constant column labels only. No
  code cell has a statement that raises or handles an exception: the repository has no
  error propagation of its own.
\<close>

theorem C3_single_error:
  \<open>map ename (error_outputs bodo_getting_started) = [''BodoError'']
   \<and> map (\<lambda>out. length (traceback out)) (error_outputs bodo_getting_started) = [5]
   \<and> map (starts_with
        ''groupby(): \'by\' parameter only supports a constant column label or column labels.'' \<circ>
        evalue) (error_outputs bodo_getting_started) = [True]
   \<and> error_cell_indices bodo_getting_started = [48]
   \<and> list_all (\<lambda>c. \<not> handles_exceptions c) (code_cells bodo_getting_started)\<close>
  by (simp only: error_outputs_notebook error_of_cell_48 error_cell_indices_notebook
      code_cells_notebook list_all_Nil_iff list_all_Cons_iff no_exception_handling simp_thms)

section \<open>Text only\<close>

lemma output_kinds_notebook:
  "set (map output_type (all_outputs bodo_getting_started)) =
     {''stream'', ''error'', ''execute_result''}"
  "set (concat (map (\<lambda>out. map fst (mime_bundle out)) (all_outputs bodo_getting_started))) =
     {''text/html'', ''text/plain''}"
  by (auto simp add: all_outputs_def nb_cells_notebook cells_def markdown_cell_outputs
      map_concat output_types_of_cell mime_types_of_cell)

text \<open>
  C6: everything the notebook carries is literal text. No cell has an attachment, the
  source of every cell is a list of strings, and every output is a text stream, an error
  (name, value and traceback strings) or a result whose representations are strings under
  the MIME types \<^verbatim>\<open>text/html\<close> and \<^verbatim>\<open>text/plain\<close>: no image or other binary
  payload occurs. The notebook is a constant of this theory: nothing of the repository
  computes on it or changes it.
\<close>

theorem C6_text_only:
  "list_all text_only_cell (nb_cells bodo_getting_started)
   \<and> set (map output_type (all_outputs bodo_getting_started)) =
       {''stream'', ''error'', ''execute_result''}
   \<and> set (concat (map (\<lambda>out. map fst (mime_bundle out))
         (all_outputs bodo_getting_started))) = {''text/html'', ''text/plain''}"
  by (simp only: output_kinds_notebook nb_cells_notebook cells_def list_all_Nil_iff
      list_all_Cons_iff text_only_cells simp_thms)

section \<open>The captured results of the grouped sum\<close>

lemma pandas_readback_notebook:
  "pandas_readback bodo_getting_started =
    [(0, 6666663333330), (4, 6666665999998), (6, 6666667333332),
     (16, 6666674000002), (20, 6666656666670), (24, 6666659333334),
     (28, 6666661999998), (1, 6666663999997), (7, 6666667999999),
     (8, 6666668666666), (11, 6666670666667), (12, 6666671333334),
     (13, 6666672000001), (15, 6666673333335), (18, 6666675333336),
     (5, 6666666666665), (19, 6666676000003), (21, 6666657333336),
     (22, 6666658000002), (23, 6666658666668), (29, 6666662666664),
     (2, 6666664666664), (3, 6666665333331), (9, 6666669333333),
     (10, 6666670000000), (14, 6666672666668), (17, 6666674666669),
     (25, 6666660000000), (26, 6666660666666), (27, 6666661333332)]"
  unfolding pandas_readback_def nb_cells_notebook nth_cells by code_simp

lemma distributed_return_notebook:
  "distributed_return bodo_getting_started =
    [(0, [(0, 6666663333330), (4, 6666665999998), (6, 6666667333332),
          (16, 6666674000002), (20, 6666656666670), (24, 6666659333334),
          (28, 6666661999998)]),
     (1, [(1, 6666663999997), (7, 6666667999999), (8, 6666668666666),
          (11, 6666670666667), (12, 6666671333334), (13, 6666672000001),
          (15, 6666673333335), (18, 6666675333336)]),
     (2, [(5, 6666666666665), (19, 6666676000003), (21, 6666657333336),
          (22, 6666658000002), (23, 6666658666668), (29, 6666662666664)]),
     (3, [(2, 6666664666664), (3, 6666665333331), (9, 6666669333333),
          (10, 6666670000000), (14, 6666672666668), (17, 6666674666669),
          (25, 6666660000000), (26, 6666660666666), (27, 6666661333332)])]"
  unfolding distributed_return_def nb_cells_notebook nth_cells by code_simp

lemma replicated_return_notebook:
  "map fst (replicated_return bodo_getting_started) = [0, 1, 2, 3]"
  "map snd (replicated_return bodo_getting_started) =
    replicate 4 (sort_key fst (pandas_readback bodo_getting_started))"
  unfolding replicated_return_def pandas_readback_def nb_cells_notebook nth_cells by code_simp+

lemma set_concat_distributed:
  "concat (map snd (distributed_return bodo_getting_started)) =
    pandas_readback bodo_getting_started"
  unfolding distributed_return_notebook pandas_readback_notebook by simp

text \<open>
  C10: in the captured output of the distributed run on 4 processes (cell 28), the key
  sets the processes printed are pairwise disjoint and cover \<open>0, \<dots>, 29\<close>: the 30 keys
  of the four chunks are distinct, and they are exactly the numbers from 0 to 29, so every
  group key is on exactly one process.
\<close>

theorem C10_keys_partition:
  "map fst (distributed_return bodo_getting_started) = [0, 1, 2, 3]
   \<and> map (map fst \<circ> snd) (distributed_return bodo_getting_started) =
       [[0, 4, 6, 16, 20, 24, 28],
        [1, 7, 8, 11, 12, 13, 15, 18],
        [5, 19, 21, 22, 23, 29],
        [2, 3, 9, 10, 14, 17, 25, 26, 27]]
   \<and> distinct (concat (map (map fst \<circ> snd) (distributed_return bodo_getting_started)))
   \<and> set (concat (map (map fst \<circ> snd) (distributed_return bodo_getting_started))) = {0..29}"
proof -
  let ?ks = "concat (map (map fst \<circ> snd) (distributed_return bodo_getting_started))"
  have ks: "?ks = [0, 4, 6, 16, 20, 24, 28, 1, 7, 8, 11, 12, 13, 15, 18,
        5, 19, 21, 22, 23, 29, 2, 3, 9, 10, 14, 17, 25, 26, 27]"
    unfolding distributed_return_notebook by simp
  have "sort ?ks = [0..29]"
    unfolding ks by code_simp
  then have "set ?ks = set [0..29]"
    by (metis set_sort)
  then have cover: "set ?ks = {0..29}"
    by simp
  have "distinct ?ks"
    unfolding ks by simp
  then show ?thesis
    using cover unfolding distributed_return_notebook by simp
qed

text \<open>
  C9: the three captured results are the same set of 30 pairs (key, sum), and this set is
  a function of the key. The four frames of the replicated return are equal to each other
  and hold the pairs of the pandas read-back; the four chunks of the distributed return,
  taken together, hold them too. Only the order of the rows differs.
\<close>

theorem C9_same_results:
  "length (pandas_readback bodo_getting_started) = 30
   \<and> distinct (map fst (pandas_readback bodo_getting_started))
   \<and> map fst (replicated_return bodo_getting_started) = [0, 1, 2, 3]
   \<and> list_all (\<lambda>t. set t = set (pandas_readback bodo_getting_started) \<and> length t = 30)
        (map snd (replicated_return bodo_getting_started))
   \<and> map fst (distributed_return bodo_getting_started) = [0, 1, 2, 3]
   \<and> set (concat (map snd (distributed_return bodo_getting_started))) =
       set (pandas_readback bodo_getting_started)
   \<and> length (concat (map snd (distributed_return bodo_getting_started))) = 30"
proof -
  have len: "length (pandas_readback bodo_getting_started) = 30"
    unfolding pandas_readback_notebook by simp
  have fn: "distinct (map fst (pandas_readback bodo_getting_started))"
    unfolding pandas_readback_notebook by simp
  have repl: "list_all (\<lambda>t. set t = set (pandas_readback bodo_getting_started) \<and> length t = 30)
        (map snd (replicated_return bodo_getting_started))"
    unfolding replicated_return_notebook using len by (simp add: numeral_eq_Suc)
  have dist: "map fst (distributed_return bodo_getting_started) = [0, 1, 2, 3]"
    unfolding distributed_return_notebook by simp
  show ?thesis
    using len fn repl dist by (simp add: replicated_return_notebook set_concat_distributed)
qed

section \<open>The grouped sums of the example\<close>

lemma generate_rows: "generate G N = map (\<lambda>i. (int i mod int G, int i)) [0..<N]"
  by (simp add: generate_def arange_def zip_map_map zip_same_conv_map)

lemma group_count_Suc:
  assumes "0 < G" "g < G"
  shows "group_count G (Suc N) g = group_count G N g + (if N mod G = g then 1 else 0)"
  using assms by (auto simp add: group_count_def div_Suc mod_Suc split: if_splits)

lemma filtered_sum:
  assumes "0 < G" "g < G"
  shows "2 * sum_list (map int (filter (\<lambda>i. i mod G = g) [0..<N])) =
    int (group_count G N g) * (2 * int g + int G * (int (group_count G N g) - 1))"
proof (induction N)
  case 0
  then show ?case by (simp add: group_count_def)
next
  case (Suc N)
  show ?case
  proof (cases "N mod G = g")
    case True
    have c: "group_count G N g = N div G"
      using True by (simp add: group_count_def)
    have N: "int N = int G * int (N div G) + int g"
      using True by (metis mult.commute of_nat_add of_nat_mult div_mult_mod_eq)
    show ?thesis
      using Suc True assms
      by (simp add: group_count_Suc c N algebra_simps)
  next
    case False
    then show ?thesis
      using Suc assms by (simp add: group_count_Suc)
  qed
qed

lemma keys_generate:
  assumes "0 < G" "G \<le> N"
  shows "sort (remdups (map fst (generate G N))) = map int [0..<G]"
proof -
  have "set (map fst (generate G N)) = set (map int [0..<G])"
  proof -
    have "(\<lambda>i. int i mod int G) ` {0..<N} = int ` {0..<G}"
    proof (intro equalityI subsetI)
      fix x assume "x \<in> (\<lambda>i. int i mod int G) ` {0..<N}"
      then obtain i where "x = int i mod int G" by auto
      then have "x = int (i mod G)" by (simp add: zmod_int)
      then show "x \<in> int ` {0..<G}" using assms by simp
    next
      fix x assume "x \<in> int ` {0..<G}"
      then obtain g where g: "x = int g" "g < G" by auto
      then have "g < N" "int g mod int G = int g" using assms by auto
      then show "x \<in> (\<lambda>i. int i mod int G) ` {0..<N}" using g
        by (metis (mono_tags, lifting) atLeastLessThan_iff imageI zero_le)
    qed
    then show ?thesis by (simp add: generate_rows image_image o_def)
  qed
  moreover have "sorted (map int [0..<G])" "distinct (map int [0..<G])"
    by (simp_all add: sorted_map distinct_map inj_on_def strict_sorted_iff)
  ultimately show ?thesis
    by (metis sorted_list_of_set_sort_remdups sorted_list_of_set.idem_if_sorted_distinct)
qed


lemma group_sum_generate:
  assumes "0 < G" "g < G"
  shows "sum_list (map snd (filter (\<lambda>r. fst r = int g) (generate G N))) =
    int (group_count G N g) * (2 * int g + int G * (int (group_count G N g) - 1)) div 2"
proof -
  have "(\<lambda>i. int i mod int G = int g) = (\<lambda>i. i mod G = g)"
    by (auto simp flip: of_nat_mod)
  then have "sum_list (map snd (filter (\<lambda>r. fst r = int g) (generate G N))) =
      sum_list (map int (filter (\<lambda>i. i mod G = g) [0..<N]))"
    by (simp add: generate_rows filter_map o_def)
  then show ?thesis
    using filtered_sum [OF assms, of N] by simp
qed

lemma groupby_sum_generate:
  assumes "0 < G" "G \<le> N"
  shows "groupby_sum (generate G N) =
    map (\<lambda>g. (int g,
      int (group_count G N g) * (2 * int g + int G * (int (group_count G N g) - 1)) div 2))
      [0..<G]"
  unfolding groupby_sum_def keys_generate [OF assms]
  using assms by (simp add: group_sum_generate)

lemma upt_30: "[0..<30] = [0, 1, 2, 3, 4, 5, 6, 7, 8, 9, 10, 11, 12, 13, 14, 15, 16, 17, 18, 19,
    20, 21, 22, 23, 24, 25, 26, 27, 28, 29]"
  by code_simp

lemma groupby_sum_df:
  "groupby_sum df =
    [(0, 6666663333330), (1, 6666663999997), (2, 6666664666664),
     (3, 6666665333331), (4, 6666665999998), (5, 6666666666665),
     (6, 6666667333332), (7, 6666667999999), (8, 6666668666666),
     (9, 6666669333333), (10, 6666670000000), (11, 6666670666667),
     (12, 6666671333334), (13, 6666672000001), (14, 6666672666668),
     (15, 6666673333335), (16, 6666674000002), (17, 6666674666669),
     (18, 6666675333336), (19, 6666676000003), (20, 6666656666670),
     (21, 6666657333336), (22, 6666658000002), (23, 6666658666668),
     (24, 6666659333334), (25, 6666660000000), (26, 6666660666666),
     (27, 6666661333332), (28, 6666661999998), (29, 6666662666664)]"
  unfolding df_def NUM_GROUPS_def NUM_ROWS_def
  by (simp add: groupby_sum_generate upt_30 group_count_def)

lemma test_df: "test df = Some 6666676000003"
  unfolding test_def groupby_sum_df by simp


lemma groupby_sum_df_int64: "list_all (\<lambda>r. snd r < 2 ^ 63) (groupby_sum df)"
  unfolding groupby_sum_df by simp

lemma printed_max_notebook:
  "List.map_filter printed_int (stdout_lines cell_7) = [6666676000003]"
  "px_printed (stdout_lines cell_9) = [(0, [6666676000003])]"
  "px_printed (stdout_lines cell_12) =
    [(0, [6666676000003]), (1, [6666676000003]), (2, [6666676000003]), (3, [6666676000003])]"
  "px_printed (stdout_lines cell_14) =
    [(0, [6666676000003]), (1, [6666676000003]), (2, [6666676000003]), (3, [6666676000003])]"
  by code_simp+

text \<open>
  C8: for the frame with \<open>A = i mod 30\<close> and \<open>B = i\<close> for \<open>0 \<le> i < 20000000\<close>, the
  maximum over the groups of the sum of \<open>B\<close> is 6666676000003, group 19 is the only group
  with this sum, and this is the number the captured outputs show: the pandas run of
  cell 7 printed it, and so did the Bodo runs of cell 9 (process 0) and of cells 12 and 14
  (each of the 4 processes).
\<close>

theorem C8_groupby_sum_max:
  "test df = Some 6666676000003
   \<and> filter (\<lambda>r. snd r = 6666676000003) (groupby_sum df) = [(19, 6666676000003)]
   \<and> List.map_filter printed_int (stdout_lines (nb_cells bodo_getting_started ! 7)) =
       [6666676000003]
   \<and> px_printed (stdout_lines (nb_cells bodo_getting_started ! 9)) = [(0, [6666676000003])]
   \<and> px_printed (stdout_lines (nb_cells bodo_getting_started ! 12)) =
       [(0, [6666676000003]), (1, [6666676000003]), (2, [6666676000003]), (3, [6666676000003])]
   \<and> px_printed (stdout_lines (nb_cells bodo_getting_started ! 14)) =
       [(0, [6666676000003]), (1, [6666676000003]), (2, [6666676000003]), (3, [6666676000003])]"
proof -
  have "filter (\<lambda>r. snd r = 6666676000003) (groupby_sum df) = [(19, 6666676000003)]"
    unfolding groupby_sum_df by simp
  then show ?thesis
    by (simp add: test_df nb_cells_notebook nth_cells printed_max_notebook)
qed

text \<open>
  The captured frames are these sums: sorted by key, the pandas read-back of cell 22 is
  the grouped sum of the example frame.
\<close>

lemma pandas_readback_is_groupby_sum:
  "sort_key fst (pandas_readback bodo_getting_started) = groupby_sum df"
  unfolding pandas_readback_notebook groupby_sum_df by code_simp

section \<open>The files the documents depend on\<close>









section \<open>The notebook is well formed\<close>

lemma valid_cells:
  "valid_cell cell_0"
  "valid_cell cell_1"
  "valid_cell cell_2"
  "valid_cell cell_3"
  "valid_cell cell_4"
  "valid_cell cell_5"
  "valid_cell cell_6"
  "valid_cell cell_7"
  "valid_cell cell_8"
  "valid_cell cell_9"
  "valid_cell cell_10"
  "valid_cell cell_11"
  "valid_cell cell_12"
  "valid_cell cell_13"
  "valid_cell cell_14"
  "valid_cell cell_15"
  "valid_cell cell_16"
  "valid_cell cell_17"
  "valid_cell cell_18"
  "valid_cell cell_19"
  "valid_cell cell_20"
  "valid_cell cell_21"
  "valid_cell cell_22"
  "valid_cell cell_23"
  "valid_cell cell_24"
  "valid_cell cell_25"
  "valid_cell cell_26"
  "valid_cell cell_27"
  "valid_cell cell_28"
  "valid_cell cell_29"
  "valid_cell cell_30"
  "valid_cell cell_31"
  "valid_cell cell_32"
  "valid_cell cell_33"
  "valid_cell cell_34"
  "valid_cell cell_35"
  "valid_cell cell_36"
  "valid_cell cell_37"
  "valid_cell cell_38"
  "valid_cell cell_39"
  "valid_cell cell_40"
  "valid_cell cell_41"
  "valid_cell cell_42"
  "valid_cell cell_43"
  "valid_cell cell_44"
  "valid_cell cell_45"
  "valid_cell cell_46"
  "valid_cell cell_47"
  "valid_cell cell_48"
  "valid_cell cell_49"
  "valid_cell cell_50"
  "valid_cell cell_51"
  "valid_cell cell_52"
  by code_simp+

lemma valid_notebook_notebook: "valid_notebook bodo_getting_started"
proof -
  have "list_all valid_cell (nb_cells bodo_getting_started)"
    by (simp only: nb_cells_notebook cells_def list_all_Nil_iff list_all_Cons_iff valid_cells
        simp_thms)
  moreover have "has_members [''cells'', ''metadata'', ''nbformat'', ''nbformat_minor''] []
      bodo_getting_started"
    by (simp add: has_members_def bodo_getting_started_def)
  moreover have "is_object (field ''metadata'' bodo_getting_started)"
    by (simp add: bodo_getting_started_def notebook_metadata_def)
  ultimately show ?thesis
    by (simp add: valid_notebook_def bodo_getting_started_def)
qed

lemma nb_language_notebook: "nb_language bodo_getting_started = ''python''"
  by code_simp

section \<open>The code cells are IPython input\<close>

lemma magic_of_cell:
  "is_cell_magic (source_lines cell_0) = False"
  "is_cell_magic (source_lines cell_1) = False"
  "is_cell_magic (source_lines cell_2) = False"
  "is_cell_magic (source_lines cell_3) = False"
  "is_cell_magic (source_lines cell_4) = False"
  "is_cell_magic (source_lines cell_5) = False"
  "is_cell_magic (source_lines cell_6) = False"
  "is_cell_magic (source_lines cell_7) = False"
  "is_cell_magic (source_lines cell_8) = False"
  "is_cell_magic (source_lines cell_9) = True"
  "is_cell_magic (source_lines cell_10) = False"
  "is_cell_magic (source_lines cell_11) = False"
  "is_cell_magic (source_lines cell_12) = True"
  "is_cell_magic (source_lines cell_13) = False"
  "is_cell_magic (source_lines cell_14) = True"
  "is_cell_magic (source_lines cell_15) = False"
  "is_cell_magic (source_lines cell_16) = True"
  "is_cell_magic (source_lines cell_17) = False"
  "is_cell_magic (source_lines cell_18) = False"
  "is_cell_magic (source_lines cell_19) = False"
  "is_cell_magic (source_lines cell_20) = True"
  "is_cell_magic (source_lines cell_21) = False"
  "is_cell_magic (source_lines cell_22) = False"
  "is_cell_magic (source_lines cell_23) = False"
  "is_cell_magic (source_lines cell_24) = False"
  "is_cell_magic (source_lines cell_25) = True"
  "is_cell_magic (source_lines cell_26) = False"
  "is_cell_magic (source_lines cell_27) = False"
  "is_cell_magic (source_lines cell_28) = True"
  "is_cell_magic (source_lines cell_29) = False"
  "is_cell_magic (source_lines cell_30) = False"
  "is_cell_magic (source_lines cell_31) = False"
  "is_cell_magic (source_lines cell_32) = False"
  "is_cell_magic (source_lines cell_33) = True"
  "is_cell_magic (source_lines cell_34) = False"
  "is_cell_magic (source_lines cell_35) = False"
  "is_cell_magic (source_lines cell_36) = False"
  "is_cell_magic (source_lines cell_37) = False"
  "is_cell_magic (source_lines cell_38) = False"
  "is_cell_magic (source_lines cell_39) = False"
  "is_cell_magic (source_lines cell_40) = True"
  "is_cell_magic (source_lines cell_41) = False"
  "is_cell_magic (source_lines cell_42) = False"
  "is_cell_magic (source_lines cell_43) = False"
  "is_cell_magic (source_lines cell_44) = False"
  "is_cell_magic (source_lines cell_45) = False"
  "is_cell_magic (source_lines cell_46) = True"
  "is_cell_magic (source_lines cell_47) = False"
  "is_cell_magic (source_lines cell_48) = False"
  "is_cell_magic (source_lines cell_49) = False"
  "is_cell_magic (source_lines cell_50) = False"
  "is_cell_magic (source_lines cell_51) = False"
  "is_cell_magic (source_lines cell_52) = False"
  by code_simp+

lemma magic_line_of_cell:
  "hd (source_lines cell_9) = ''%%px --block\<newline>''"
  "hd (source_lines cell_12) = ''%%px --block\<newline>''"
  "hd (source_lines cell_14) = ''%%px --block\<newline>''"
  "hd (source_lines cell_16) = ''%%px --block\<newline>''"
  "hd (source_lines cell_20) = ''%%px --block\<newline>''"
  "hd (source_lines cell_25) = ''%%px --block\<newline>''"
  "hd (source_lines cell_28) = ''%%px --block\<newline>''"
  "hd (source_lines cell_33) = ''%%px --block\<newline>''"
  "hd (source_lines cell_40) = ''%%px --block\<newline>''"
  "hd (source_lines cell_46) = ''%%px --block\<newline>''"
  by code_simp+

lemma python_cell_bodies:
  "py_module (cell_body (source_lines cell_2))"
  "py_module (cell_body (source_lines cell_5))"
  "py_module (cell_body (source_lines cell_7))"
  "py_module (cell_body (source_lines cell_9))"
  "py_module (cell_body (source_lines cell_12))"
  "py_module (cell_body (source_lines cell_14))"
  "py_module (cell_body (source_lines cell_16))"
  "py_module (cell_body (source_lines cell_20))"
  "py_module (cell_body (source_lines cell_22))"
  "py_module (cell_body (source_lines cell_25))"
  "py_module (cell_body (source_lines cell_28))"
  "py_module (cell_body (source_lines cell_31))"
  "py_module (cell_body (source_lines cell_33))"
  "py_module (cell_body (source_lines cell_36))"
  "py_module (cell_body (source_lines cell_38))"
  "py_module (cell_body (source_lines cell_40))"
  "py_module (cell_body (source_lines cell_42))"
  "py_module (cell_body (source_lines cell_44))"
  "py_module (cell_body (source_lines cell_46))"
  "py_module (cell_body (source_lines cell_48))"
  "py_module (cell_body (source_lines cell_50))"
  by code_simp+

lemma magic_cell_not_python: "\<not> py_module (source_lines cell_9)"
  by code_simp

text \<open>
  C1, as stated: the notebook is a well-formed document, and the source of every code cell
  is Python. The second part fails: cell 9, the first cell that runs on the engines,
  starts with the line \<^verbatim>\<open>%%px --block\<close>, and so do nine more cells.
\<close>

theorem C1_counterexample:
  "\<not> (valid_notebook bodo_getting_started \<and>
      list_all (\<lambda>c. py_module (source_lines c)) (code_cells bodo_getting_started))"
  by (simp add: code_cells_notebook magic_cell_not_python)

text \<open>
  C1, amended: the notebook is a well-formed notebook document (format version 4, for
  the language Python), and the source of every code cell is syntactically valid IPython
  input: it is Python, or the cell magic \<^verbatim>\<open>%%px --block\<close> on the first line and Python
  after it. The cells with the magic are the ten cells 9, 12, 14, 16, 20, 25, 28, 33, 40
  and 46.
\<close>

theorem C1_wellformed_amended:
  "valid_notebook bodo_getting_started
   \<and> nb_language bodo_getting_started = ''python''
   \<and> list_all (\<lambda>c. py_module (cell_body (source_lines c))) (code_cells bodo_getting_started)
   \<and> indices_where (\<lambda>c. is_cell_magic (source_lines c)) 0 (nb_cells bodo_getting_started) =
       [9, 12, 14, 16, 20, 25, 28, 33, 40, 46]
   \<and> map (hd \<circ> source_lines)
        (filter (\<lambda>c. is_cell_magic (source_lines c)) (nb_cells bodo_getting_started)) =
       replicate 10 ''%%px --block\<newline>''"
proof -
  have "list_all (\<lambda>c. py_module (cell_body (source_lines c))) (code_cells bodo_getting_started)"
    by (simp only: code_cells_notebook list_all_Nil_iff list_all_Cons_iff python_cell_bodies
        simp_thms)
  then show ?thesis
    by (simp add: valid_notebook_notebook nb_language_notebook nb_cells_notebook cells_def
        magic_of_cell magic_line_of_cell numeral_eq_Suc)
qed

section \<open>Who runs the processes\<close>








end
